theory Spec2Isabelle
  imports Main "HOL-Library.Word"
begin

section \<open>ESP32 internet radio: command dispatch and session state\<close>

text \<open>
  The repository holds two programs with the same structure:
  \<^item> \<^verbatim>\<open>src/main.cpp\<close> (stereo configuration, 2024 menu redesign): a table \<^verbatim>\<open>menu[]\<close> of
    \<^verbatim>\<open>MenuItem\<close>s, each with a key, a label, an argument and an action (a function
    reference); \<^verbatim>\<open>doMenu\<close> calls the action of the first entry whose key matches.
  \<^item> \<^verbatim>\<open>src/esp32InternetRadio.cpp\<close> (mono configuration): a table \<^verbatim>\<open>station[]\<close> of
    \<^verbatim>\<open>Radiostation\<close>s (key, name, url); \<^verbatim>\<open>doMenu\<close> finds the first entry whose key matches
    and dispatches with a \<^verbatim>\<open>switch\<close> on the key.

  Functions whose bodies are the same in both files (\<^verbatim>\<open>incrementVolume\<close>,
  \<^verbatim>\<open>decrementVolume\<close>, \<^verbatim>\<open>toggleSpeaker\<close>, \<^verbatim>\<open>initAudio\<close>, \<^verbatim>\<open>waitIsOver\<close>) are embedded once.
  Functions that differ are embedded twice; the one of \<^verbatim>\<open>esp32InternetRadio.cpp\<close>
  carries the suffix \<open>_mono\<close>.
\<close>

subsection \<open>Calls into the collaborators, as observable events\<close>

text \<open>
  The audio engine (\<^verbatim>\<open>Audio audio\<close>), the serial port, the WiFi stack and the board
  support functions are external. Every call the code makes into them is recorded, in
  program order, as one event; a function of the program returns the new values of the
  program's variables together with the list of events it produced.
\<close>

datatype audio_cmd =
    SetPinout nat nat nat        \<comment> \<open>\<^verbatim>\<open>audio.setPinout(I2S_BCLK, I2S_LRC, I2S_DOUT)\<close>\<close>
  | SetVolume int                \<comment> \<open>\<^verbatim>\<open>audio.setVolume(v)\<close>\<close>
  | ConnectToHost string         \<comment> \<open>\<^verbatim>\<open>audio.connecttohost(url)\<close>\<close>
  | ConnectToFS string           \<comment> \<open>\<^verbatim>\<open>audio.connecttoFS(SPIFFS, file)\<close>\<close>
  | ConnectToSpeech string string \<comment> \<open>\<^verbatim>\<open>audio.connecttospeech(txt, lang)\<close>\<close>
  | AudioLoop                    \<comment> \<open>\<^verbatim>\<open>audio.loop()\<close>\<close>

datatype sys_call =
    SerialBegin nat              \<comment> \<open>\<^verbatim>\<open>Serial.begin(baud)\<close>\<close>
  | PinModeLedOutput             \<comment> \<open>\<^verbatim>\<open>pinMode(LED_BUILTIN, OUTPUT)\<close>\<close>
  | InitWiFi string string string bool
      \<comment> \<open>\<^verbatim>\<open>initWiFi(ssid, password, hostname)\<close> of \<^verbatim>\<open>main.cpp\<close> and the value it returned\<close>
  | LogError string              \<comment> \<open>\<^verbatim>\<open>log_e(msg)\<close>\<close>
  | Heartbeat nat nat nat        \<comment> \<open>\<^verbatim>\<open>heartbeat(LED_BUILTIN, nBeats, t, duty)\<close>\<close>
  | SpiffsBegin                  \<comment> \<open>\<^verbatim>\<open>SPIFFS.begin()\<close>\<close>
  | PrintNearbyNetworks          \<comment> \<open>\<^verbatim>\<open>printNearbyNetworks()\<close>\<close>
  | PrintConnectionDetails       \<comment> \<open>\<^verbatim>\<open>printConnectionDetails()\<close>\<close>
  | WiFiConfig                   \<comment> \<open>\<^verbatim>\<open>WiFi.config(INADDR_NONE, INADDR_NONE, INADDR_NONE)\<close>\<close>
  | WiFiSetHostname string       \<comment> \<open>\<^verbatim>\<open>WiFi.setHostname(hostname)\<close>\<close>
  | WiFiBegin string string      \<comment> \<open>\<^verbatim>\<open>WiFi.begin(ssid, password)\<close>\<close>
  | WiFiStatus bool
      \<comment> \<open>one evaluation of \<^verbatim>\<open>WiFi.status()\<close>; the flag says whether it was \<^verbatim>\<open>WL_CONNECTED\<close>\<close>
  | Delay nat                    \<comment> \<open>\<^verbatim>\<open>delay(ms)\<close>\<close>

datatype event =
    Audio audio_cmd
  | SerialOut string             \<comment> \<open>the text of one \<^verbatim>\<open>Serial.print\<close>/\<^verbatim>\<open>printf\<close>/\<^verbatim>\<open>println\<close>\<close>
  | ClearLine
      \<comment> \<open>the macro \<^verbatim>\<open>CLEAR_LINE\<close>: carriage return, a blank line (80 columns in
          \<^verbatim>\<open>main.cpp\<close>, 128 in \<^verbatim>\<open>esp32InternetRadio.cpp\<close>), carriage return\<close>
  | SerialRead char              \<comment> \<open>\<^verbatim>\<open>Serial.read()\<close> and the character it delivered\<close>
  | Sys sys_call

text \<open>The engine commands among a list of events, in order.\<close>

fun audio_cmds :: "event list \<Rightarrow> audio_cmd list" where
  "audio_cmds [] = []"
| "audio_cmds (Audio c # es) = c # audio_cmds es"
| "audio_cmds (e # es) = audio_cmds es"

text \<open>The texts printed on the serial port (line clears apart), in order.\<close>

fun printed :: "event list \<Rightarrow> string list" where
  "printed [] = []"
| "printed (SerialOut t # es) = t # printed es"
| "printed (e # es) = printed es"

text \<open>The characters read from the serial port, in order.\<close>

fun keys_read :: "event list \<Rightarrow> char list" where
  "keys_read [] = []"
| "keys_read (SerialRead k # es) = k # keys_read es"
| "keys_read (e # es) = keys_read es"

subsection \<open>Constants and program variables\<close>

definition MIN_VOLUME :: int where "MIN_VOLUME = 0"
definition MAX_VOLUME :: int where "MAX_VOLUME = 21"
definition DEFAULT_VOLUME :: int where "DEFAULT_VOLUME = 10"

definition I2S_LRC :: nat where "I2S_LRC = 25"
definition I2S_BCLK :: nat where "I2S_BCLK = 26"
definition I2S_DOUT :: nat where "I2S_DOUT = 27"

text \<open>
  The mutable variables of the program: the globals \<^verbatim>\<open>currentStation\<close>, \<^verbatim>\<open>currentUrl\<close>
  and \<^verbatim>\<open>currentVolume\<close>, the function-local static \<^verbatim>\<open>spkrIsOn\<close> of \<^verbatim>\<open>toggleSpeaker\<close>, and
  the function-local statics \<^verbatim>\<open>msPrevious\<close> and \<^verbatim>\<open>done\<close> of \<^verbatim>\<open>loop\<close>.

  \<^verbatim>\<open>currentVolume\<close> and \<^verbatim>\<open>currentStation\<close> are C \<^verbatim>\<open>int\<close>s. The only arithmetic on them is
  \<^verbatim>\<open>currentVolume++\<close> under the guard \<^verbatim>\<open>currentVolume < 21\<close> and \<^verbatim>\<open>currentVolume--\<close> under the
  guard \<^verbatim>\<open>currentVolume > 0\<close>, neither of which can overflow, so they are modelled as
  unbounded integers. \<^verbatim>\<open>currentUrl\<close> points to a string literal and is modelled by the
  string. \<^verbatim>\<open>msPrevious\<close> is initialised by the first call of \<^verbatim>\<open>loop\<close>: it is \<open>None\<close>
  until then.
\<close>

record radio =
  currentStation :: int
  currentUrl :: string
  currentVolume :: int
  spkrIsOn :: bool
  msPrevious :: "32 word option"
  done_flag :: bool

subsection \<open>Volume control and speaker toggle (same body in both files)\<close>

text \<open>Rendering of \<^verbatim>\<open>%d\<close>.\<close>

fun dec_digits :: "nat \<Rightarrow> string" where
  "dec_digits n =
     (if n < 10 then [''0123456789'' ! n]
      else dec_digits (n div 10) @ [''0123456789'' ! (n mod 10)])"

declare dec_digits.simps [simp del]

definition fmt_d :: "int \<Rightarrow> string" where
  "fmt_d i = (if i < 0 then CHR ''-'' # dec_digits (nat (- i)) else dec_digits (nat i))"

text \<open>
  \<^verbatim>\<open>
  void incrementVolume(const char* txt)
  {
    if (currentVolume < MAX_VOLUME)
    {
      currentVolume++;
      audio.setVolume(currentVolume);
    }
    CLEAR_LINE;
    Serial.printf("Current Volume: %d", currentVolume);
  }
  \<close>
  The parameter \<^verbatim>\<open>txt\<close> (absent in \<^verbatim>\<open>esp32InternetRadio.cpp\<close>) is not used.
\<close>

definition incrementVolume :: "radio \<Rightarrow> radio \<times> event list" where
  "incrementVolume s =
     (if currentVolume s < MAX_VOLUME then
        (let s' = s\<lparr>currentVolume := currentVolume s + 1\<rparr> in
         (s', [Audio (SetVolume (currentVolume s')), ClearLine,
               SerialOut (''Current Volume: '' @ fmt_d (currentVolume s'))]))
      else
        (s, [ClearLine, SerialOut (''Current Volume: '' @ fmt_d (currentVolume s))]))"

definition decrementVolume :: "radio \<Rightarrow> radio \<times> event list" where
  "decrementVolume s =
     (if currentVolume s > 0 then
        (let s' = s\<lparr>currentVolume := currentVolume s - 1\<rparr> in
         (s', [Audio (SetVolume (currentVolume s')), ClearLine,
               SerialOut (''Current Volume: '' @ fmt_d (currentVolume s'))]))
      else
        (s, [ClearLine, SerialOut (''Current Volume: '' @ fmt_d (currentVolume s))]))"

text \<open>
  \<^verbatim>\<open>
  void toggleSpeaker(const char* txt)
  {
    static bool spkrIsOn = true;
    if (spkrIsOn)
    {
      audio.setVolume(MIN_VOLUME);
      spkrIsOn = false;
      CLEAR_LINE;
      Serial.printf("Speaker is off");
    }
    else
    {
      if (currentVolume == MIN_VOLUME) currentVolume = DEFAULT_VOLUME;
      audio.setVolume(currentVolume);
      spkrIsOn = true;
      CLEAR_LINE;
      Serial.printf("Speaker is on");
    }
  }
  \<close>
\<close>

definition toggleSpeaker :: "radio \<Rightarrow> radio \<times> event list" where
  "toggleSpeaker s =
     (if spkrIsOn s then
        (s\<lparr>spkrIsOn := False\<rparr>,
         [Audio (SetVolume MIN_VOLUME), ClearLine, SerialOut ''Speaker is off''])
      else
        (let s1 = (if currentVolume s = MIN_VOLUME then s\<lparr>currentVolume := DEFAULT_VOLUME\<rparr>
                   else s) in
         (s1\<lparr>spkrIsOn := True\<rparr>,
          [Audio (SetVolume (currentVolume s1)), ClearLine, SerialOut ''Speaker is on''])))"

subsection \<open>The menu of \<^verbatim>\<open>main.cpp\<close>\<close>

text \<open>
  \<^verbatim>\<open>using Action = void(&)(const char*);\<close>
  \<^verbatim>\<open>using MenuItem = struct mi{ const char key; const char *txt; const char* arg; Action action; };\<close>
  An action is a reference to one of ten functions of the file; the table stores which
  one, and \<open>call\<close> below invokes it.
\<close>

datatype Action =
    PlayRadio | PlayMP3 | TextToSpeachEn | TextToSpeachDe | TextToSpeachIt
  | IncrementVolume | DecrementVolume | ToggleSpeaker | ShowCurrentStation | ShowMenu

datatype MenuItem = MenuItem (key: char) (item_txt: string) (arg: string) (action: Action)

text \<open>The array \<^verbatim>\<open>text[]\<close> of \<^verbatim>\<open>main.cpp\<close> (UTF-8 bytes, as in the source file).\<close>

definition text_arr :: "string list" where
  "text_arr =
    [''Internet radio (also web radio, net radio, streaming radio, e-radio, IP radio, online radio) is a digital audio service transmitted via the Internet'',
     ''Als Internetradio (auch Webradio) bezeichnet man ein Internet-basiertes Angebot an H'' @ [CHR 0xC3, CHR 0xB6] @ ''rfunksendungen'',
     ''Internet radio (anche web radio) '' @ [CHR 0xC3, CHR 0xA8] @ '' il termine usato per descrivere una gamma di programmi radiofonici su Internet'']"

definition menu :: "MenuItem list" where
  "menu =
    [MenuItem (CHR ''0'') ''MDR-Klassik'' ''http://mdr-284350-0.cast.mdr.de/mdr/284350/0/mp3/high/stream.mp3'' PlayRadio,
     MenuItem (CHR ''1'') ''SRF1 AG-SO'' ''http://stream.srg-ssr.ch/m/regi_ag_so/mp3_128'' PlayRadio,
     MenuItem (CHR ''2'') ''SRF2'' ''http://stream.srg-ssr.ch/m/drs2/mp3_128'' PlayRadio,
     MenuItem (CHR ''3'') ''SRF3'' ''http://stream.srg-ssr.ch/m/drs3/mp3_128'' PlayRadio,
     MenuItem (CHR ''4'') ''SRF4 News'' ''http://stream.srg-ssr.ch/m/drs4news/mp3_128'' PlayRadio,
     MenuItem (CHR ''5'') ''Swiss Classic'' ''http://stream.srg-ssr.ch/m/rsc_de/mp3_128'' PlayRadio,
     MenuItem (CHR ''6'') ''Swiss Jazz'' ''http://stream.srg-ssr.ch/m/rsj/mp3_128'' PlayRadio,
     MenuItem (CHR ''7'') ''SRF Musikwelle'' ''http://stream.srg-ssr.ch/m/drsmw/mp3_128'' PlayRadio,
     MenuItem (CHR ''8'') ''Alles Blasmusik'' ''http://stream.bayerwaldradio.com/allesblasmusik'' PlayRadio,
     MenuItem (CHR ''9'') ''WKVI-AM'' ''http://kvbstreams.dyndns.org:8000/wkvi-am'' PlayRadio,
     MenuItem (CHR ''a'') ''DLF'' ''http://st01.dlf.de/dlf/01/128/mp3/stream.mp3'' PlayRadio,
     MenuItem (CHR ''b'') ''WDR 1 Live'' ''http://www.wdr.de/wdrlive/media/einslive.m3u'' PlayRadio,
     MenuItem (CHR ''c'') ''SWR1 BW'' ''https://liveradio.swr.de/sw282p3/swr1bw/'' PlayRadio,
     MenuItem (CHR ''d'') ''SWR2'' ''https://liveradio.swr.de/sw282p3/swr2/'' PlayRadio,
     MenuItem (CHR ''e'') ''SWR3'' ''https://liveradio.swr.de/sw282p3/swr3/'' PlayRadio,
     MenuItem (CHR ''f'') ''SWR4 BW'' ''https://liveradio.swr.de/sw282p3/swr4bw/'' PlayRadio,
     MenuItem (CHR ''g'') ''BR Klassik'' ''https://dispatcher.rndfnk.com/br/brklassik/live/mp3/mid'' PlayRadio,
     MenuItem (CHR ''h'') ''Blues Mobile'' ''https://strm112.1.fm/blues_mobile_mp3'' PlayRadio,
     MenuItem (CHR ''i'') ''Jazz MMX'' ''http://jazz.streamr.ru/jazz-64.mp3'' PlayRadio,
     MenuItem (CHR ''j'') ''Radio Classique'' ''http://radioclassique.ice.infomaniak.ch/radioclassique-high.mp3'' PlayRadio,
     MenuItem (CHR ''k'') ''HIT Radio FFH MP3'' ''http://mp3.ffh.de/radioffh/hqlivestream.mp3'' PlayRadio,
     MenuItem (CHR ''l'') ''Capital London'' ''http://vis.media-ice.musicradio.com/CapitalMP3'' PlayRadio,
     MenuItem (CHR ''m'') ''ORF'' ''https://orf-live.ors-shoutcast.at/vbg-q1a'' PlayRadio,
     MenuItem (CHR ''n'') ''Beatles Radio'' ''http://www.beatlesradio.com:8000/stream/1/'' PlayRadio,
     MenuItem (CHR ''!'') ''Text to speach en'' (text_arr ! 0) TextToSpeachEn,
     MenuItem (CHR ''.'') ''Text to speach de'' (text_arr ! 1) TextToSpeachDe,
     MenuItem (CHR '','') ''Text to speach it'' (text_arr ! 2) TextToSpeachIt,
     MenuItem (CHR ''t'') ''Test stereo channels'' ''/stereotest440-445.mp3'' PlayMP3,
     MenuItem (CHR ''+'') ''Increment volume'' '''' IncrementVolume,
     MenuItem (CHR ''-'') ''Decrement volume'' '''' DecrementVolume,
     MenuItem (CHR ''T'') ''Toggle speaker on/off'' '''' ToggleSpeaker,
     MenuItem (CHR ''C'') ''Show current Station'' '''' ShowCurrentStation,
     MenuItem (CHR ''S'') ''Show Menu'' '''' ShowMenu]"

text \<open>\<^verbatim>\<open>constexpr uint8_t nbrMenuItems = sizeof(menu) / sizeof(menu[0]);\<close>\<close>

definition nbrMenuItems :: nat where
  "nbrMenuItems = length menu"

text \<open>
  The initial values of the variables:
  \<^verbatim>\<open>
  int currentStation     = 5;  // preselect Swiss Classic
  const char *currentUrl = menu[currentStation].arg;
  int currentVolume      = DEFAULT_VOLUME;
  \<close>
  with \<^verbatim>\<open>static bool spkrIsOn = true\<close> and \<^verbatim>\<open>static bool done = false\<close>.
\<close>

definition radio_init :: radio where
  "radio_init =
     \<lparr>currentStation = 5, currentUrl = arg (menu ! 5), currentVolume = DEFAULT_VOLUME,
      spkrIsOn = True, msPrevious = None, done_flag = False\<rparr>"

text \<open>
  \<^verbatim>\<open>menu[i].txt\<close> for an \<^verbatim>\<open>int\<close> index. Reading outside the array is undefined behaviour
  in C++; the program never does it (\<^verbatim>\<open>currentStation\<close> is never assigned in
  \<^verbatim>\<open>main.cpp\<close>). The model reads the empty string there.
\<close>

definition menu_txt :: "int \<Rightarrow> string" where
  "menu_txt i = (if 0 \<le> i \<and> i < int nbrMenuItems then item_txt (menu ! nat i) else [])"

text \<open>
  \<^verbatim>\<open>
  void showCurrentStation(const char* txt)
  {
    CLEAR_LINE;
    Serial.printf("Current Station: %s --> %s", menu[currentStation].txt, currentUrl);
  };
  \<close>
\<close>

definition showCurrentStation :: "radio \<Rightarrow> radio \<times> event list" where
  "showCurrentStation s =
     (s, [ClearLine,
          SerialOut (''Current Station: '' @ menu_txt (currentStation s) @ '' --> '' @ currentUrl s)])"

text \<open>
  The title printed by \<^verbatim>\<open>showMenu\<close>: the raw string literal between \<^verbatim>\<open>R"TITLE(\<close> and
  \<^verbatim>\<open>)TITLE"\<close>, line feeds included.
\<close>

definition TITLE :: string where
  "TITLE = [CHR 0x0A] @ ''-----------------'' @ [CHR 0x0A] @ '' ESP32 Web Radio '' @ [CHR 0x0A]
           @ ''-----------------'' @ [CHR 0x0A]"

text \<open>
  \<^verbatim>\<open>
  void showMenu(const char* txt)
  {
    Serial.print(TITLE);
    for (int i = 0; i < nbrMenuItems; i++)
    {
      Serial.printf("[%c] %s\n", menu[i].key, menu[i].txt);
    }
    Serial.print("\nPress a key: ");
  }
  \<close>
\<close>

definition showMenu :: "radio \<Rightarrow> radio \<times> event list" where
  "showMenu s =
     (s, SerialOut TITLE
         # map (\<lambda>m. SerialOut (''['' @ [key m] @ ''] '' @ item_txt m @ [CHR 0x0A])) menu
         @ [SerialOut ([CHR 0x0A] @ ''Press a key: '')])"

text \<open>
  \<^verbatim>\<open>void playRadio(const char* txt) { audio.connecttohost(txt); }\<close>
  \<^verbatim>\<open>void playMP3(const char* file) { audio.connecttoFS(SPIFFS, file); }\<close>
  \<^verbatim>\<open>void textToSpeachDe(const char* txt) { audio.connecttospeech(txt, "de"); }\<close>
  and likewise for \<^verbatim>\<open>"en"\<close> and \<^verbatim>\<open>"it"\<close>.
\<close>

definition playRadio :: "string \<Rightarrow> radio \<Rightarrow> radio \<times> event list" where
  "playRadio t s = (s, [Audio (ConnectToHost t)])"

definition playMP3 :: "string \<Rightarrow> radio \<Rightarrow> radio \<times> event list" where
  "playMP3 file s = (s, [Audio (ConnectToFS file)])"

definition textToSpeachDe :: "string \<Rightarrow> radio \<Rightarrow> radio \<times> event list" where
  "textToSpeachDe t s = (s, [Audio (ConnectToSpeech t ''de'')])"

definition textToSpeachEn :: "string \<Rightarrow> radio \<Rightarrow> radio \<times> event list" where
  "textToSpeachEn t s = (s, [Audio (ConnectToSpeech t ''en'')])"

definition textToSpeachIt :: "string \<Rightarrow> radio \<Rightarrow> radio \<times> event list" where
  "textToSpeachIt t s = (s, [Audio (ConnectToSpeech t ''it'')])"

text \<open>\<^verbatim>\<open>menu[i].action(menu[i].arg)\<close>: the call through the function reference.\<close>

fun call :: "Action \<Rightarrow> string \<Rightarrow> radio \<Rightarrow> radio \<times> event list" where
  "call PlayRadio a s = playRadio a s"
| "call PlayMP3 a s = playMP3 a s"
| "call TextToSpeachEn a s = textToSpeachEn a s"
| "call TextToSpeachDe a s = textToSpeachDe a s"
| "call TextToSpeachIt a s = textToSpeachIt a s"
| "call IncrementVolume a s = incrementVolume s"
| "call DecrementVolume a s = decrementVolume s"
| "call ToggleSpeaker a s = toggleSpeaker s"
| "call ShowCurrentStation a s = showCurrentStation s"
| "call ShowMenu a s = showMenu s"

text \<open>
  \<^verbatim>\<open>
  void doMenu()
  {
    char key = Serial.read();
    CLEAR_LINE;
    for (int i = 0; i < nbrMenuItems; i++)
    {
      if (key == menu[i].key)
      {
        menu[i].action(menu[i].arg);
        break;
      }
    }
  }
  \<close>
  \<open>doMenu_for i\<close> is the \<^verbatim>\<open>for\<close> loop from index \<open>i\<close> on; \<open>doMenu k\<close> is the function when
  \<^verbatim>\<open>Serial.read()\<close> delivers \<open>k\<close>.
\<close>

function doMenu_for :: "nat \<Rightarrow> char \<Rightarrow> radio \<Rightarrow> radio \<times> event list" where
  "doMenu_for i k s =
     (if i < nbrMenuItems then
        (if k = key (menu ! i) then call (action (menu ! i)) (arg (menu ! i)) s
         else doMenu_for (i + 1) k s)
      else (s, []))"
  by pat_completeness auto
termination
  by (relation "measure (\<lambda>(i, k, s). nbrMenuItems - i)") auto

declare doMenu_for.simps [simp del]

definition doMenu :: "char \<Rightarrow> radio \<Rightarrow> radio \<times> event list" where
  "doMenu k s =
     (let (s', evs) = doMenu_for 0 k s in (s', [SerialRead k, ClearLine] @ evs))"

subsection \<open>The station table of \<^verbatim>\<open>esp32InternetRadio.cpp\<close>\<close>

text \<open>
  \<^verbatim>\<open>typedef struct { const char key; const char *name; const char *url; } Radiostation;\<close>
\<close>

datatype Radiostation =
  Radiostation (key_mono: char) (name_mono: string) (url_mono: string)

text \<open>The array \<^verbatim>\<open>text[]\<close> of \<^verbatim>\<open>esp32InternetRadio.cpp\<close>.\<close>

definition text_arr_mono :: "string list" where
  "text_arr_mono =
    [''Internet radio (also web radio, net radio, streaming radio, e-radio, IP radio, online radio) is a digital audio service transmitted via the Internet.'',
     ''Als Internetradio (auch Webradio) bezeichnet man ein Internet-basiertes Angebot an H'' @ [CHR 0xC3, CHR 0xB6] @ ''rfunksendungen.'',
     ''Internet radio (anche web radio) '' @ [CHR 0xC3, CHR 0xA8] @ '' il termine usato per descrivere una gamma di programmi radiofonici su Internet.'']"

definition station :: "Radiostation list" where
  "station =
    [Radiostation (CHR ''0'') ''Klassik Radio'' ''http://stream.klassikradio.de/live/mp3-128/stream.klassikradio.de'',
     Radiostation (CHR ''1'') ''SRF1 AG-SO'' ''http://stream.srg-ssr.ch/m/regi_ag_so/mp3_128'',
     Radiostation (CHR ''2'') ''SRF2'' ''http://stream.srg-ssr.ch/m/drs2/mp3_128'',
     Radiostation (CHR ''3'') ''SRF3'' ''http://stream.srg-ssr.ch/m/drs3/mp3_128'',
     Radiostation (CHR ''4'') ''SRF4 News'' ''http://stream.srg-ssr.ch/m/drs4news/mp3_128'',
     Radiostation (CHR ''5'') ''Swiss Classic'' ''http://stream.srg-ssr.ch/m/rsc_de/mp3_128'',
     Radiostation (CHR ''6'') ''Swiss Jazz'' ''http://stream.srg-ssr.ch/m/rsj/mp3_128'',
     Radiostation (CHR ''7'') ''SRF Musikwelle'' ''http://stream.srg-ssr.ch/m/drsmw/mp3_128'',
     Radiostation (CHR ''8'') ''Alles Blasmusik'' ''http://stream.bayerwaldradio.com/allesblasmusik'',
     Radiostation (CHR ''9'') ''WKVI-AM'' ''http://kvbstreams.dyndns.org:8000/wkvi-am'',
     Radiostation (CHR ''a'') ''DLF'' ''http://st01.dlf.de/dlf/01/128/mp3/stream.mp3'',
     Radiostation (CHR ''b'') ''WDR 1 Live'' ''http://www.wdr.de/wdrlive/media/einslive.m3u'',
     Radiostation (CHR ''c'') ''SWR1 BW'' ''http://mp3-live.swr.de/swr1bw_m.m3u'',
     Radiostation (CHR ''d'') ''SWR2'' ''http://mp3-live.swr.de/swr2_m.m3u'',
     Radiostation (CHR ''e'') ''SWR3'' ''http://mp3-live.swr3.de/swr3_m.m3u'',
     Radiostation (CHR ''f'') ''SWR4 BW'' ''http://mp3-live.swr.de/swr4bw_m.m3u'',
     Radiostation (CHR ''g'') ''SWR Aktuell'' ''http://mp3-live.swr.de/swraktuell_m.m3u'',
     Radiostation (CHR ''h'') ''DasDing'' ''http://mp3-live.dasding.de/dasding_m.m3u'',
     Radiostation (CHR ''i'') ''Jazz MMX'' ''http://jazz.streamr.ru/jazz-64.mp3'',
     Radiostation (CHR ''j'') ''Irish Pub Radio'' ''http://macslons-irish-pub-radio.com/media.asx'',
     Radiostation (CHR ''k'') ''HIT Radio FFH MP3'' ''http://mp3.ffh.de/radioffh/hqlivestream.mp3'',
     Radiostation (CHR ''l'') ''Capital London'' ''http://vis.media-ice.musicradio.com/CapitalMP3'',
     Radiostation (CHR ''m'') ''ORF'' ''https://orf-live.ors-shoutcast.at/vbg-q1a'',
     Radiostation (CHR ''n'') ''Beatles Radio'' ''http://www.beatlesradio.com:8000/stream/1/'',
     Radiostation (CHR ''!'') ''Speech 1'' '''',
     Radiostation (CHR ''.'') ''Speech 2'' '''',
     Radiostation (CHR '','') ''Speech 3'' '''',
     Radiostation (CHR ''+'') ''Increment volume'' '''',
     Radiostation (CHR ''-'') ''Decrement volume'' '''',
     Radiostation (CHR ''T'') ''Toggle speaker on/off'' '''',
     Radiostation (CHR ''C'') ''Show current Station'' '''',
     Radiostation (CHR ''S'') ''Show Menu'' '''']"

text \<open>\<^verbatim>\<open>constexpr uint8_t nbrRadiostations = sizeof(station) / sizeof(station[0]);\<close>\<close>

definition nbrRadiostations :: nat where
  "nbrRadiostations = length station"

text \<open>
  \<^verbatim>\<open>
  int currentStation     = 5;  // preselect Swiss Classic
  const char *currentUrl = station[currentStation].url;
  int currentVolume      = DEFAULT_VOLUME;
  \<close>
\<close>

definition radio_init_mono :: radio where
  "radio_init_mono =
     \<lparr>currentStation = 5, currentUrl = url_mono (station ! 5), currentVolume = DEFAULT_VOLUME,
      spkrIsOn = True, msPrevious = None, done_flag = False\<rparr>"

text \<open>
  \<^verbatim>\<open>station[i].name\<close> for an \<^verbatim>\<open>int\<close> index; outside the array (undefined behaviour in
  C++, never reached: \<^verbatim>\<open>currentStation\<close> is only assigned an index of the \<^verbatim>\<open>for\<close> loop)
  the model reads the empty string.
\<close>

definition station_name :: "int \<Rightarrow> string" where
  "station_name i =
     (if 0 \<le> i \<and> i < int nbrRadiostations then name_mono (station ! nat i) else [])"

text \<open>
  \<^verbatim>\<open>
  void showCurrentStation()
  {
    CLEAR_LINE;
    Serial.printf("Current Station: %s --> %s", station[currentStation].name, currentUrl);
  };
  \<close>
\<close>

definition showCurrentStation_mono :: "radio \<Rightarrow> radio \<times> event list" where
  "showCurrentStation_mono s =
     (s, [ClearLine,
          SerialOut (''Current Station: '' @ station_name (currentStation s) @ '' --> ''
                     @ currentUrl s)])"

text \<open>
  \<^verbatim>\<open>
  void showMenu()
  {
    Serial.print(TITLE);
    for (int i = 0; i < nbrRadiostations; i++)
    {
      Serial.printf("[%c] %s\n", station[i].key, station[i].name);
    }
    Serial.print("\nPress a key: ");
  }
  \<close>
\<close>

definition showMenu_mono :: "radio \<Rightarrow> radio \<times> event list" where
  "showMenu_mono s =
     (s, SerialOut TITLE
         # map (\<lambda>m. SerialOut (''['' @ [key_mono m] @ ''] '' @ name_mono m @ [CHR 0x0A])) station
         @ [SerialOut ([CHR 0x0A] @ ''Press a key: '')])"

text \<open>
  The \<^verbatim>\<open>switch(key)\<close> of \<^verbatim>\<open>doMenu\<close>, entered when \<^verbatim>\<open>key == station[i].key\<close>:
  \<^verbatim>\<open>
      switch(key)
      {
        case 'S': showMenu(); break;
        case 'C': showCurrentStation(); break;
        case 'T': toggleSpeaker(); break;
        case '!': audio.connecttospeech(text[0], "en"); break;
        case '.': audio.connecttospeech(text[1], "de"); break;
        case ',': audio.connecttospeech(text[2], "it"); break;
        case '+': incrementVolume(); break;
        case '-': decrementVolume(); break;
        default:
          currentStation = i;
          currentUrl = station[i].url;
          audio.connecttohost(currentUrl);
        break;
      }
  \<close>
\<close>

definition doMenu_switch :: "nat \<Rightarrow> char \<Rightarrow> radio \<Rightarrow> radio \<times> event list" where
  "doMenu_switch i k s =
     (if k = CHR ''S'' then showMenu_mono s
      else if k = CHR ''C'' then showCurrentStation_mono s
      else if k = CHR ''T'' then toggleSpeaker s
      else if k = CHR ''!'' then (s, [Audio (ConnectToSpeech (text_arr_mono ! 0) ''en'')])
      else if k = CHR ''.'' then (s, [Audio (ConnectToSpeech (text_arr_mono ! 1) ''de'')])
      else if k = CHR '','' then (s, [Audio (ConnectToSpeech (text_arr_mono ! 2) ''it'')])
      else if k = CHR ''+'' then incrementVolume s
      else if k = CHR ''-'' then decrementVolume s
      else
        (let s1 = s\<lparr>currentStation := int i\<rparr>;
             s2 = s1\<lparr>currentUrl := url_mono (station ! i)\<rparr>
         in (s2, [Audio (ConnectToHost (currentUrl s2))])))"

text \<open>
  \<^verbatim>\<open>
  void doMenu()
  {
    char key = Serial.read();
    CLEAR_LINE;
    for (int i = 0; i < nbrRadiostations; i++)
    {
      if (key == station[i].key)
      {
        switch(key) { ... }
        break; // for loop
      }
    }
  }
  \<close>
\<close>

function doMenu_for_mono :: "nat \<Rightarrow> char \<Rightarrow> radio \<Rightarrow> radio \<times> event list" where
  "doMenu_for_mono i k s =
     (if i < nbrRadiostations then
        (if k = key_mono (station ! i) then doMenu_switch i k s
         else doMenu_for_mono (i + 1) k s)
      else (s, []))"
  by pat_completeness auto
termination
  by (relation "measure (\<lambda>(i, k, s). nbrRadiostations - i)") auto

declare doMenu_for_mono.simps [simp del]

definition doMenu_mono :: "char \<Rightarrow> radio \<Rightarrow> radio \<times> event list" where
  "doMenu_mono k s =
     (let (s', evs) = doMenu_for_mono 0 k s in (s', [SerialRead k, ClearLine] @ evs))"

subsection \<open>Start-up\<close>

text \<open>
  \<^verbatim>\<open>
  void initAudio()
  {
    audio.setPinout(I2S_BCLK, I2S_LRC, I2S_DOUT);
    audio.setVolume(currentVolume); // 0...21
    audio.connecttohost(currentUrl);
  }
  \<close>
  (the same statements in both files).
\<close>

definition initAudio :: "radio \<Rightarrow> radio \<times> event list" where
  "initAudio s =
     (s, [Audio (SetPinout I2S_BCLK I2S_LRC I2S_DOUT),
          Audio (SetVolume (currentVolume s)),
          Audio (ConnectToHost (currentUrl s))])"

text \<open>The WiFi credentials of \<^verbatim>\<open>main.cpp\<close> and of \<^verbatim>\<open>esp32InternetRadio.cpp\<close>.\<close>

definition ssid :: string where "ssid = ''DodekaGast''"
definition password :: string where "password = ''episkeptes''"
definition hostname :: string where "hostname = ''esp32-radio''"

definition ssid_mono :: string where "ssid_mono = ''YOUR SSID''"
definition password_mono :: string where "password_mono = ''YOUR PSK''"
definition hostname_mono :: string where "hostname_mono = ''esp32-radio''"

text \<open>
  \<^verbatim>\<open>setup\<close> of \<^verbatim>\<open>main.cpp\<close>:
  \<^verbatim>\<open>
  void setup()
  {
      Serial.begin(115200);
      pinMode(LED_BUILTIN, OUTPUT);
      if (! initWiFi(ssid, password, hostname))
      {
        log_e("==> Connection to WLAN failed");
        while(true) heartbeat(LED_BUILTIN, 3, 1, 5);
      };
      SPIFFS.begin();
      printNearbyNetworks();
      printConnectionDetails();
      initAudio();
  }
  \<close>
  \<^verbatim>\<open>initWiFi\<close>, \<^verbatim>\<open>heartbeat\<close>, \<^verbatim>\<open>printNearbyNetworks\<close> and \<^verbatim>\<open>printConnectionDetails\<close> are
  declared \<^verbatim>\<open>extern\<close>; each call is an event, and the value \<open>wifi_ok\<close> that
  \<^verbatim>\<open>initWiFi\<close> returns is a parameter. The loop \<^verbatim>\<open>while(true) heartbeat(...)\<close> never
  ends: \<open>fuel\<close> is the number of its iterations that are observed, and the result
  \<open>None\<close> says that \<^verbatim>\<open>setup\<close> has not returned.
\<close>

definition setup_main :: "bool \<Rightarrow> nat \<Rightarrow> radio \<Rightarrow> radio option \<times> event list" where
  "setup_main wifi_ok fuel s =
     (let ev0 = [Sys (SerialBegin 115200), Sys PinModeLedOutput,
                 Sys (InitWiFi ssid password hostname wifi_ok)]
      in if \<not> wifi_ok then
           (None, ev0 @ [Sys (LogError ''==> Connection to WLAN failed'')]
                  @ replicate fuel (Sys (Heartbeat 3 1 5)))
         else
           (let (s', ev1) = initAudio s
            in (Some s', ev0 @ [Sys SpiffsBegin, Sys PrintNearbyNetworks,
                                Sys PrintConnectionDetails] @ ev1)))"

text \<open>
  \<^verbatim>\<open>initWiFi\<close> of \<^verbatim>\<open>esp32InternetRadio.cpp\<close>:
  \<^verbatim>\<open>
  void initWiFi()
  {
    Serial.println("Connecting to WiFi");
    WiFi.config(INADDR_NONE, INADDR_NONE, INADDR_NONE);
    WiFi.setHostname(hostname);
    WiFi.begin(ssid, password);
    // Try forever
    while (WiFi.status() != WL_CONNECTED)
    {
      Serial.println("...Connecting to WiFi");
      delay(1000);
    }
    Serial.println("Connected");
    printConnectionDetails();
  }
  \<close>
  The answers of the successive calls of \<^verbatim>\<open>WiFi.status()\<close> are an input: the list
  \<open>polls\<close>, \<open>True\<close> for \<^verbatim>\<open>WL_CONNECTED\<close>. The loop may run forever; when the list is used
  up and no answer was \<^verbatim>\<open>WL_CONNECTED\<close>, the result \<open>False\<close> says that the loop has not
  ended. \<^verbatim>\<open>println\<close> ends the line with carriage return and line feed.
  \<^verbatim>\<open>printConnectionDetails\<close> prints properties of the WiFi connection; it is one event.
\<close>

definition println :: "string \<Rightarrow> event" where
  "println t = SerialOut (t @ [CHR 0x0D, CHR 0x0A])"

fun initWiFi_while :: "bool list \<Rightarrow> bool \<times> event list" where
  "initWiFi_while [] = (False, [])"
| "initWiFi_while (c # cs) =
     (if c then (True, [Sys (WiFiStatus True)])
      else (let (r, evs) = initWiFi_while cs
            in (r, [Sys (WiFiStatus False), println ''...Connecting to WiFi'', Sys (Delay 1000)]
                   @ evs)))"

definition initWiFi_mono :: "bool list \<Rightarrow> bool \<times> event list" where
  "initWiFi_mono polls =
     (let ev0 = [println ''Connecting to WiFi'', Sys WiFiConfig,
                 Sys (WiFiSetHostname hostname_mono), Sys (WiFiBegin ssid_mono password_mono)];
          (r, ev1) = initWiFi_while polls
      in if r then (True, ev0 @ ev1 @ [println ''Connected'', Sys PrintConnectionDetails])
         else (False, ev0 @ ev1))"

text \<open>
  \<^verbatim>\<open>
  void setup()
  {
      Serial.begin(115200);
      initWiFi();
      initAudio();
  }
  \<close>
\<close>

definition setup_mono :: "bool list \<Rightarrow> radio \<Rightarrow> radio option \<times> event list" where
  "setup_mono polls s =
     (let (r, ev1) = initWiFi_mono polls
      in if r then (let (s', ev2) = initAudio s
                    in (Some s', [Sys (SerialBegin 115200)] @ ev1 @ ev2))
         else (None, [Sys (SerialBegin 115200)] @ ev1))"

subsection \<open>The control loop\<close>

text \<open>
  What one call of \<^verbatim>\<open>loop\<close> reads from its environment: the value of \<^verbatim>\<open>millis()\<close> at
  the initialisation of the static \<^verbatim>\<open>msPrevious\<close> (read by the first call only), at the
  comparison and at the assignment inside \<^verbatim>\<open>waitIsOver\<close>, and the character waiting in
  the serial buffer, if \<^verbatim>\<open>Serial.available()\<close> is not zero.
\<close>

record loop_in =
  ms_init :: "32 word"
  ms_test :: "32 word"
  ms_store :: "32 word"
  rx :: "char option"

text \<open>
  \<^verbatim>\<open>
  bool waitIsOver(uint32_t &msPrevious, uint32_t msWait)
  {
    return (millis() - msPrevious >= msWait) ? (msPrevious = millis(), true) : false;
  }
  \<close>
  The result is the returned flag and the new value of the reference parameter. The
  subtraction is that of \<^verbatim>\<open>uint32_t\<close>.
\<close>

definition waitIsOver :: "32 word \<Rightarrow> 32 word \<Rightarrow> 32 word \<Rightarrow> 32 word \<Rightarrow> bool \<times> 32 word" where
  "waitIsOver t_test t_store msPrev msWait =
     (if t_test - msPrev \<ge> msWait then (True, t_store) else (False, msPrev))"

text \<open>
  The statement
  \<^verbatim>\<open>if (!done && waitIsOver(msPrevious, 5000)) { done = true; showMenu(""); }\<close>
  of \<^verbatim>\<open>loop\<close>, together with the initialisation of the statics
  \<^verbatim>\<open>static uint32_t msPrevious = millis(); static bool done = false;\<close>
  (\<^verbatim>\<open>&&\<close> does not call \<^verbatim>\<open>waitIsOver\<close> when \<^verbatim>\<open>done\<close> is set).
\<close>

definition show_once :: "loop_in \<Rightarrow> radio \<Rightarrow> radio \<times> event list" where
  "show_once inp s =
     (let prev = (case msPrevious s of None \<Rightarrow> ms_init inp | Some p \<Rightarrow> p) in
      if \<not> done_flag s then
        (let (over, prev') = waitIsOver (ms_test inp) (ms_store inp) prev 5000 in
         if over then showMenu (s\<lparr>msPrevious := Some prev', done_flag := True\<rparr>)
         else (s\<lparr>msPrevious := Some prev'\<rparr>, []))
      else (s\<lparr>msPrevious := Some prev\<rparr>, []))"

definition show_once_mono :: "loop_in \<Rightarrow> radio \<Rightarrow> radio \<times> event list" where
  "show_once_mono inp s =
     (let prev = (case msPrevious s of None \<Rightarrow> ms_init inp | Some p \<Rightarrow> p) in
      if \<not> done_flag s then
        (let (over, prev') = waitIsOver (ms_test inp) (ms_store inp) prev 5000 in
         if over then showMenu_mono (s\<lparr>msPrevious := Some prev', done_flag := True\<rparr>)
         else (s\<lparr>msPrevious := Some prev'\<rparr>, []))
      else (s\<lparr>msPrevious := Some prev\<rparr>, []))"

text \<open>
  \<^verbatim>\<open>
  void loop()
  {
      static uint32_t msPrevious = millis();
      static bool done = false;
      audio.loop();
      if (!done && waitIsOver(msPrevious, 5000)) { done = true; showMenu(""); }
      if (Serial.available()) doMenu();
  }
  \<close>
\<close>

definition loop :: "loop_in \<Rightarrow> radio \<Rightarrow> radio \<times> event list" where
  "loop inp s =
     (let (s1, ev1) = show_once inp s;
          (s2, ev2) = (case rx inp of None \<Rightarrow> (s1, []) | Some k \<Rightarrow> doMenu k s1)
      in (s2, [Audio AudioLoop] @ ev1 @ ev2))"

definition loop_mono :: "loop_in \<Rightarrow> radio \<Rightarrow> radio \<times> event list" where
  "loop_mono inp s =
     (let (s1, ev1) = show_once_mono inp s;
          (s2, ev2) = (case rx inp of None \<Rightarrow> (s1, []) | Some k \<Rightarrow> doMenu_mono k s1)
      in (s2, [Audio AudioLoop] @ ev1 @ ev2))"

subsection \<open>The whole sketch\<close>

text \<open>
  The Arduino core calls \<^verbatim>\<open>setup()\<close> once and then \<^verbatim>\<open>loop()\<close> again and again. An
  execution is observed for finitely many calls of \<^verbatim>\<open>loop\<close>, one per element of the
  list of inputs; when \<^verbatim>\<open>setup\<close> does not return, \<^verbatim>\<open>loop\<close> is never called.
\<close>

fun loops :: "loop_in list \<Rightarrow> radio \<Rightarrow> radio \<times> event list" where
  "loops [] s = (s, [])"
| "loops (i # ins) s =
     (let (s1, ev1) = loop i s; (s2, ev2) = loops ins s1 in (s2, ev1 @ ev2))"

fun loops_mono :: "loop_in list \<Rightarrow> radio \<Rightarrow> radio \<times> event list" where
  "loops_mono [] s = (s, [])"
| "loops_mono (i # ins) s =
     (let (s1, ev1) = loop_mono i s; (s2, ev2) = loops_mono ins s1 in (s2, ev1 @ ev2))"

definition sketch :: "bool \<Rightarrow> nat \<Rightarrow> loop_in list \<Rightarrow> radio option \<times> event list" where
  "sketch wifi_ok fuel ins =
     (case setup_main wifi_ok fuel radio_init of
        (None, ev) \<Rightarrow> (None, ev)
      | (Some s, ev) \<Rightarrow> (let (s', ev') = loops ins s in (Some s', ev @ ev')))"

definition sketch_mono :: "bool list \<Rightarrow> loop_in list \<Rightarrow> radio option \<times> event list" where
  "sketch_mono polls ins =
     (case setup_mono polls radio_init_mono of
        (None, ev) \<Rightarrow> (None, ev)
      | (Some s, ev) \<Rightarrow> (let (s', ev') = loops_mono ins s in (Some s', ev @ ev')))"

subsection \<open>Notions used to state the properties\<close>

text \<open>The volume level is within its bounds.\<close>

definition vol_ok :: "radio \<Rightarrow> bool" where
  "vol_ok s = (0 \<le> currentVolume s \<and> currentVolume s \<le> MAX_VOLUME)"

text \<open>An operation applied \<open>n\<close> times in a row, with the events of all applications.\<close>

fun repeat_op :: "nat \<Rightarrow> (radio \<Rightarrow> radio \<times> event list) \<Rightarrow> radio \<Rightarrow> radio \<times> event list" where
  "repeat_op 0 f s = (s, [])"
| "repeat_op (Suc n) f s =
     (let (s1, ev1) = f s; (s2, ev2) = repeat_op n f s1 in (s2, ev1 @ ev2))"





text \<open>
  \<open>after_connect c es\<close>: reading the events \<open>es\<close> in order, starting with connectivity known
  (\<open>c\<close>) or not, every engine command and every read of an input character comes after
  an event that reports the WiFi connection as established (\<^verbatim>\<open>initWiFi\<close> returning true
  in \<^verbatim>\<open>main.cpp\<close>, \<^verbatim>\<open>WiFi.status()\<close> being \<^verbatim>\<open>WL_CONNECTED\<close> in \<^verbatim>\<open>esp32InternetRadio.cpp\<close>).
\<close>

fun after_connect :: "bool \<Rightarrow> event list \<Rightarrow> bool" where
  "after_connect c [] = True"
| "after_connect c (Sys (InitWiFi a b h ok) # es) = after_connect (c \<or> ok) es"
| "after_connect c (Sys (WiFiStatus ok) # es) = after_connect (c \<or> ok) es"
| "after_connect c (Audio a # es) = (c \<and> after_connect c es)"
| "after_connect c (SerialRead k # es) = (c \<and> after_connect c es)"
| "after_connect c (e # es) = after_connect c es"

text \<open>The heartbeat calls among a list of events.\<close>

fun heartbeats :: "event list \<Rightarrow> nat" where
  "heartbeats [] = 0"
| "heartbeats (Sys (Heartbeat n t d) # es) = Suc (heartbeats es)"
| "heartbeats (e # es) = heartbeats es"

text \<open>
  The number of calls of \<^verbatim>\<open>loop\<close>, in a run over the inputs \<open>ins\<close> from \<open>s\<close>, in which the
  statement guarded by \<^verbatim>\<open>done\<close> prints the menu.
\<close>

fun auto_menus :: "loop_in list \<Rightarrow> radio \<Rightarrow> nat" where
  "auto_menus [] s = 0"
| "auto_menus (i # ins) s =
     (if snd (show_once i s) \<noteq> [] then 1 else 0) + auto_menus ins (fst (loop i s))"

fun auto_menus_mono :: "loop_in list \<Rightarrow> radio \<Rightarrow> nat" where
  "auto_menus_mono [] s = 0"
| "auto_menus_mono (i # ins) s =
     (if snd (show_once_mono i s) \<noteq> [] then 1 else 0) + auto_menus_mono ins (fst (loop_mono i s))"

section \<open>Properties\<close>

subsection \<open>Auxiliary facts about the dispatch loop\<close>

lemma doMenu_for_miss:
  "(\<And>j. i \<le> j \<Longrightarrow> j < nbrMenuItems \<Longrightarrow> key (menu ! j) \<noteq> k) \<Longrightarrow> doMenu_for i k s = (s, [])"
proof (induction i k s rule: doMenu_for.induct)
  case (1 i k s)
  show ?case
  proof (cases "i < nbrMenuItems")
    case True
    then have ne: "k \<noteq> key (menu ! i)" using "1.prems" [of i] by auto
    have "doMenu_for (i + 1) k s = (s, [])"
      using True ne "1.prems" by (intro "1.IH") auto
    with True ne show ?thesis by (subst doMenu_for.simps) simp
  next
    case False
    then show ?thesis by (subst doMenu_for.simps) simp
  qed
qed

lemma doMenu_for_hit:
  "i \<le> j \<Longrightarrow> j < nbrMenuItems \<Longrightarrow> key (menu ! j) = k \<Longrightarrow>
   (\<And>j'. i \<le> j' \<Longrightarrow> j' < j \<Longrightarrow> key (menu ! j') \<noteq> k) \<Longrightarrow>
   doMenu_for i k s = call (action (menu ! j)) (arg (menu ! j)) s"
proof (induction i k s rule: doMenu_for.induct)
  case (1 i k s)
  show ?case
  proof (cases "i = j")
    case True
    with "1.prems" show ?thesis by (subst doMenu_for.simps) simp
  next
    case False
    with "1.prems" have lt: "i < j" by simp
    then have ne: "k \<noteq> key (menu ! i)" using "1.prems"(4) [of i] by auto
    have inb: "i < nbrMenuItems" using lt "1.prems"(2) by simp
    have "doMenu_for (i + 1) k s = call (action (menu ! j)) (arg (menu ! j)) s"
      using inb ne lt "1.prems" by (intro "1.IH") auto
    with inb ne show ?thesis by (subst doMenu_for.simps) simp
  qed
qed

lemma distinct_keys: "distinct (map key menu)"
  by (simp add: menu_def)

lemma length_menu: "length menu = 33"
  by (simp add: menu_def)

lemma doMenu_unknown:
  assumes "k \<notin> set (map key menu)"
  shows "doMenu k s = (s, [SerialRead k, ClearLine])"
proof -
  have "doMenu_for 0 k s = (s, [])"
  proof (rule doMenu_for_miss)
    fix j assume "j < nbrMenuItems"
    then have "key (menu ! j) \<in> set (map key menu)" by (simp add: nbrMenuItems_def)
    with assms show "key (menu ! j) \<noteq> k" by auto
  qed
  then show ?thesis by (simp add: doMenu_def)
qed

lemma doMenu_known:
  assumes "j < nbrMenuItems"
  shows "doMenu (key (menu ! j)) s =
     (fst (call (action (menu ! j)) (arg (menu ! j)) s),
      [SerialRead (key (menu ! j)), ClearLine] @ snd (call (action (menu ! j)) (arg (menu ! j)) s))"
proof -
  have "doMenu_for 0 (key (menu ! j)) s = call (action (menu ! j)) (arg (menu ! j)) s"
  proof (rule doMenu_for_hit)
    fix j' assume "j' < j"
    with assms distinct_keys show "key (menu ! j') \<noteq> key (menu ! j)"
      by (simp add: nbrMenuItems_def distinct_conv_nth)
  qed (use assms in auto)
  then show ?thesis by (simp add: doMenu_def split: prod.splits)
qed

text \<open>
  For every key, \<^verbatim>\<open>doMenu\<close> either finds no entry, or calls the action of exactly one
  entry, once.
\<close>

lemma doMenu_cases:
  obtains (unknown) "k \<notin> set (map key menu)" "doMenu k s = (s, [SerialRead k, ClearLine])"
  | (known) j where "j < nbrMenuItems" "k = key (menu ! j)"
      "doMenu k s = (fst (call (action (menu ! j)) (arg (menu ! j)) s),
         [SerialRead k, ClearLine] @ snd (call (action (menu ! j)) (arg (menu ! j)) s))"
proof (cases "k \<in> set (map key menu)")
  case False
  then show ?thesis using doMenu_unknown unknown by blast
next
  case True
  then obtain j where j: "j < length menu" "k = key (menu ! j)"
    by (auto simp: in_set_conv_nth)
  then show ?thesis using doMenu_known [of j s] known [of j]
    by (simp add: nbrMenuItems_def)
qed

lemma doMenu_for_mono_miss:
  "(\<And>j. i \<le> j \<Longrightarrow> j < nbrRadiostations \<Longrightarrow> key_mono (station ! j) \<noteq> k) \<Longrightarrow>
   doMenu_for_mono i k s = (s, [])"
proof (induction i k s rule: doMenu_for_mono.induct)
  case (1 i k s)
  show ?case
  proof (cases "i < nbrRadiostations")
    case True
    then have ne: "k \<noteq> key_mono (station ! i)" using "1.prems" [of i] by auto
    have "doMenu_for_mono (i + 1) k s = (s, [])"
      using True ne "1.prems" by (intro "1.IH") auto
    with True ne show ?thesis by (subst doMenu_for_mono.simps) simp
  next
    case False
    then show ?thesis by (subst doMenu_for_mono.simps) simp
  qed
qed

lemma doMenu_for_mono_hit:
  "i \<le> j \<Longrightarrow> j < nbrRadiostations \<Longrightarrow> key_mono (station ! j) = k \<Longrightarrow>
   (\<And>j'. i \<le> j' \<Longrightarrow> j' < j \<Longrightarrow> key_mono (station ! j') \<noteq> k) \<Longrightarrow>
   doMenu_for_mono i k s = doMenu_switch j k s"
proof (induction i k s rule: doMenu_for_mono.induct)
  case (1 i k s)
  show ?case
  proof (cases "i = j")
    case True
    with "1.prems" show ?thesis by (subst doMenu_for_mono.simps) simp
  next
    case False
    with "1.prems" have lt: "i < j" by simp
    then have ne: "k \<noteq> key_mono (station ! i)" using "1.prems"(4) [of i] by auto
    have inb: "i < nbrRadiostations" using lt "1.prems"(2) by simp
    have "doMenu_for_mono (i + 1) k s = doMenu_switch j k s"
      using inb ne lt "1.prems" by (intro "1.IH") auto
    with inb ne show ?thesis by (subst doMenu_for_mono.simps) simp
  qed
qed

lemma distinct_keys_mono: "distinct (map key_mono station)"
  by (simp add: station_def)

lemma length_station: "length station = 32"
  by (simp add: station_def)

lemma doMenu_mono_unknown:
  assumes "k \<notin> set (map key_mono station)"
  shows "doMenu_mono k s = (s, [SerialRead k, ClearLine])"
proof -
  have "doMenu_for_mono 0 k s = (s, [])"
  proof (rule doMenu_for_mono_miss)
    fix j assume "j < nbrRadiostations"
    then have "key_mono (station ! j) \<in> set (map key_mono station)"
      by (simp add: nbrRadiostations_def)
    with assms show "key_mono (station ! j) \<noteq> k" by auto
  qed
  then show ?thesis by (simp add: doMenu_mono_def)
qed

lemma doMenu_mono_known:
  assumes "j < nbrRadiostations"
  shows "doMenu_mono (key_mono (station ! j)) s =
     (fst (doMenu_switch j (key_mono (station ! j)) s),
      [SerialRead (key_mono (station ! j)), ClearLine]
      @ snd (doMenu_switch j (key_mono (station ! j)) s))"
proof -
  have "doMenu_for_mono 0 (key_mono (station ! j)) s = doMenu_switch j (key_mono (station ! j)) s"
  proof (rule doMenu_for_mono_hit)
    fix j' assume "j' < j"
    with assms distinct_keys_mono show "key_mono (station ! j') \<noteq> key_mono (station ! j)"
      by (simp add: nbrRadiostations_def distinct_conv_nth)
  qed (use assms in auto)
  then show ?thesis by (simp add: doMenu_mono_def split: prod.splits)
qed

lemma doMenu_mono_cases:
  obtains (unknown) "k \<notin> set (map key_mono station)"
      "doMenu_mono k s = (s, [SerialRead k, ClearLine])"
  | (known) j where "j < nbrRadiostations" "k = key_mono (station ! j)"
      "doMenu_mono k s = (fst (doMenu_switch j k s),
         [SerialRead k, ClearLine] @ snd (doMenu_switch j k s))"
proof (cases "k \<in> set (map key_mono station)")
  case False
  then show ?thesis using doMenu_mono_unknown unknown by blast
next
  case True
  then obtain j where j: "j < length station" "k = key_mono (station ! j)"
    by (auto simp: in_set_conv_nth)
  then show ?thesis using doMenu_mono_known [of j s] known [of j]
    by (simp add: nbrRadiostations_def)
qed

subsection \<open>Volume control\<close>

lemma incrementVolume_vol:
  "currentVolume (fst (incrementVolume s)) =
     (if currentVolume s < MAX_VOLUME then currentVolume s + 1 else currentVolume s)"
  by (simp add: incrementVolume_def Let_def)

lemma decrementVolume_vol:
  "currentVolume (fst (decrementVolume s)) =
     (if 0 < currentVolume s then currentVolume s - 1 else currentVolume s)"
  by (simp add: decrementVolume_def Let_def)

lemma toggleSpeaker_vol:
  "currentVolume (fst (toggleSpeaker s)) =
     (if \<not> spkrIsOn s \<and> currentVolume s = MIN_VOLUME then DEFAULT_VOLUME else currentVolume s)"
  by (simp add: toggleSpeaker_def Let_def)

lemma fst_repeat_op_Suc:
  "fst (repeat_op (Suc n) f s) = fst (repeat_op n f (fst (f s)))"
  by (simp add: case_prod_beta)

lemma repeat_incrementVolume:
  "currentVolume s \<le> MAX_VOLUME \<Longrightarrow>
   currentVolume (fst (repeat_op n incrementVolume s)) = min MAX_VOLUME (currentVolume s + int n)"
proof (induction n arbitrary: s)
  case 0
  then show ?case by simp
next
  case (Suc n)
  have le: "currentVolume (fst (incrementVolume s)) \<le> MAX_VOLUME"
    using Suc.prems by (simp add: incrementVolume_vol)
  show ?case
    using Suc.IH [OF le] Suc.prems
    by (simp only: fst_repeat_op_Suc) (auto simp add: incrementVolume_vol MAX_VOLUME_def min_def)
qed

text \<open>
  Claim C5. From every volume level between 0 and \<^verbatim>\<open>MAX_VOLUME\<close>, \<^verbatim>\<open>incrementVolume\<close>
  applied \<^verbatim>\<open>MAX_VOLUME\<close> + k times (any k) leaves the level at \<^verbatim>\<open>MAX_VOLUME\<close>: the level
  stops at the ceiling and does not wrap around.
\<close>

theorem incrementVolume_clamps:
  assumes "0 \<le> currentVolume s" and "currentVolume s \<le> MAX_VOLUME"
  shows "currentVolume (fst (repeat_op (nat MAX_VOLUME + k) incrementVolume s)) = MAX_VOLUME"
  using assms by (simp add: repeat_incrementVolume MAX_VOLUME_def)

theorem incrementVolume_clamps_witness:
  "0 \<le> currentVolume radio_init \<and> currentVolume radio_init \<le> MAX_VOLUME \<and>
   currentVolume (fst (repeat_op (nat MAX_VOLUME + 2) incrementVolume radio_init)) = MAX_VOLUME"
proof -
  have a: "0 \<le> currentVolume radio_init" by (simp add: radio_init_def DEFAULT_VOLUME_def)
  have b: "currentVolume radio_init \<le> MAX_VOLUME"
    by (simp add: radio_init_def DEFAULT_VOLUME_def MAX_VOLUME_def)
  show ?thesis using a b incrementVolume_clamps [OF a b, of 2] by simp
qed

text \<open>
  Claim C9. \<^verbatim>\<open>incrementVolume\<close> and \<^verbatim>\<open>decrementVolume\<close> call \<^verbatim>\<open>audio.setVolume\<close> if and only
  if the stored level changes, and then once, with the new level; at the ceiling
  (\<^verbatim>\<open>incrementVolume\<close> at \<^verbatim>\<open>MAX_VOLUME\<close>) and at the floor (\<^verbatim>\<open>decrementVolume\<close> at 0) the
  engine is not called and no variable changes.
\<close>

theorem volume_engine_call_iff_changed:
  "(audio_cmds (snd (incrementVolume s)) \<noteq> [] \<longleftrightarrow>
      currentVolume (fst (incrementVolume s)) \<noteq> currentVolume s) \<and>
   (audio_cmds (snd (decrementVolume s)) \<noteq> [] \<longleftrightarrow>
      currentVolume (fst (decrementVolume s)) \<noteq> currentVolume s) \<and>
   audio_cmds (snd (incrementVolume s)) =
     (if currentVolume s < MAX_VOLUME then [SetVolume (currentVolume s + 1)] else []) \<and>
   audio_cmds (snd (decrementVolume s)) =
     (if 0 < currentVolume s then [SetVolume (currentVolume s - 1)] else []) \<and>
   (currentVolume s = MAX_VOLUME \<longrightarrow>
      audio_cmds (snd (incrementVolume s)) = [] \<and> fst (incrementVolume s) = s) \<and>
   (currentVolume s = 0 \<longrightarrow>
      audio_cmds (snd (decrementVolume s)) = [] \<and> fst (decrementVolume s) = s)"
  by (simp add: incrementVolume_def decrementVolume_def Let_def)

theorem volume_engine_call_iff_changed_witness:
  "audio_cmds (snd (incrementVolume (radio_init\<lparr>currentVolume := MAX_VOLUME\<rparr>))) = [] \<and>
   audio_cmds (snd (decrementVolume (radio_init\<lparr>currentVolume := 0\<rparr>))) = [] \<and>
   audio_cmds (snd (incrementVolume radio_init)) = [SetVolume 11] \<and>
   audio_cmds (snd (decrementVolume radio_init)) = [SetVolume 9]"
  using volume_engine_call_iff_changed [of "radio_init\<lparr>currentVolume := MAX_VOLUME\<rparr>"]
    volume_engine_call_iff_changed [of "radio_init\<lparr>currentVolume := 0\<rparr>"]
    volume_engine_call_iff_changed [of radio_init]
  by (simp add: radio_init_def DEFAULT_VOLUME_def MAX_VOLUME_def)

subsection \<open>Speaker toggle\<close>

text \<open>
  Claim C4. \<^verbatim>\<open>toggleSpeaker\<close> applied twice in a row gives \<^verbatim>\<open>spkrIsOn\<close> its former value
  and leaves \<^verbatim>\<open>currentVolume\<close> as it was, except that a level of 0 becomes
  \<^verbatim>\<open>DEFAULT_VOLUME\<close> (the switching on replaces it); switching off does not touch the
  level.
\<close>

theorem toggleSpeaker_twice:
  "spkrIsOn (fst (toggleSpeaker (fst (toggleSpeaker s)))) = spkrIsOn s \<and>
   currentVolume (fst (toggleSpeaker (fst (toggleSpeaker s)))) =
     (if currentVolume s = 0 then DEFAULT_VOLUME else currentVolume s) \<and>
   (spkrIsOn s \<longrightarrow> currentVolume (fst (toggleSpeaker s)) = currentVolume s)"
  by (simp add: toggleSpeaker_def Let_def MIN_VOLUME_def)

theorem toggleSpeaker_twice_witness:
  "spkrIsOn (fst (toggleSpeaker (fst (toggleSpeaker (radio_init\<lparr>currentVolume := 5\<rparr>))))) \<and>
   currentVolume (fst (toggleSpeaker (fst (toggleSpeaker (radio_init\<lparr>currentVolume := 5\<rparr>))))) = 5 \<and>
   currentVolume (fst (toggleSpeaker (radio_init\<lparr>currentVolume := 0\<rparr>))) = 0 \<and>
   currentVolume (fst (toggleSpeaker (fst (toggleSpeaker (radio_init\<lparr>currentVolume := 0\<rparr>))))) = 10"
  using toggleSpeaker_twice [of "radio_init\<lparr>currentVolume := 5\<rparr>"]
    toggleSpeaker_twice [of "radio_init\<lparr>currentVolume := 0\<rparr>"]
  by (simp add: radio_init_def DEFAULT_VOLUME_def)

subsection \<open>Dispatch\<close>

text \<open>
  Claim C3. For every character that is the key of no table entry, \<^verbatim>\<open>doMenu\<close> (in both
  files) leaves every variable of the program (\<^verbatim>\<open>currentStation\<close>, \<^verbatim>\<open>currentUrl\<close>,
  \<^verbatim>\<open>currentVolume\<close>, \<^verbatim>\<open>spkrIsOn\<close>) unchanged and calls no function of the engine: it
  reads the character and clears the line, nothing else.
\<close>

theorem unknown_key_ignored:
  "(k \<notin> set (map key menu) \<longrightarrow>
      fst (doMenu k s) = s \<and> audio_cmds (snd (doMenu k s)) = [] \<and>
      snd (doMenu k s) = [SerialRead k, ClearLine]) \<and>
   (k \<notin> set (map key_mono station) \<longrightarrow>
      fst (doMenu_mono k s) = s \<and> audio_cmds (snd (doMenu_mono k s)) = [] \<and>
      snd (doMenu_mono k s) = [SerialRead k, ClearLine])"
  by (simp add: doMenu_unknown doMenu_mono_unknown)

theorem unknown_key_ignored_witness:
  "CHR ''x'' \<notin> set (map key menu) \<and> CHR ''x'' \<notin> set (map key_mono station) \<and>
   fst (doMenu (CHR ''x'') radio_init) = radio_init \<and>
   audio_cmds (snd (doMenu (CHR ''x'') radio_init)) = [] \<and>
   fst (doMenu_mono (CHR ''x'') radio_init_mono) = radio_init_mono \<and>
   audio_cmds (snd (doMenu_mono (CHR ''x'') radio_init_mono)) = []"
proof -
  have a: "CHR ''x'' \<notin> set (map key menu)" by (simp add: menu_def)
  have b: "CHR ''x'' \<notin> set (map key_mono station)" by (simp add: station_def)
  show ?thesis
    using a b unknown_key_ignored [of "CHR ''x''" radio_init]
      unknown_key_ignored [of "CHR ''x''" radio_init_mono]
    by simp
qed

lemma call_vol_ok: "vol_ok s \<Longrightarrow> vol_ok (fst (call a x s))"
  by (cases a)
     (simp_all add: vol_ok_def playRadio_def playMP3_def textToSpeachEn_def textToSpeachDe_def
        textToSpeachIt_def showMenu_def showCurrentStation_def incrementVolume_vol
        decrementVolume_vol toggleSpeaker_vol MAX_VOLUME_def DEFAULT_VOLUME_def MIN_VOLUME_def)

lemma doMenu_vol_ok: "vol_ok s \<Longrightarrow> vol_ok (fst (doMenu k s))"
  by (rule doMenu_cases [where k = k and s = s]) (simp_all add: call_vol_ok)

lemma doMenu_switch_vol_ok: "vol_ok s \<Longrightarrow> vol_ok (fst (doMenu_switch i k s))"
  by (simp add: doMenu_switch_def vol_ok_def showMenu_mono_def showCurrentStation_mono_def
        incrementVolume_vol decrementVolume_vol toggleSpeaker_vol Let_def
        MAX_VOLUME_def DEFAULT_VOLUME_def MIN_VOLUME_def)

lemma doMenu_mono_vol_ok: "vol_ok s \<Longrightarrow> vol_ok (fst (doMenu_mono k s))"
  by (rule doMenu_mono_cases [where k = k and s = s]) (simp_all add: doMenu_switch_vol_ok)

lemma show_once_vol: "currentVolume (fst (show_once inp s)) = currentVolume s"
  by (simp add: show_once_def showMenu_def Let_def split: prod.splits)

lemma show_once_mono_vol: "currentVolume (fst (show_once_mono inp s)) = currentVolume s"
  by (simp add: show_once_mono_def showMenu_mono_def Let_def split: prod.splits)

lemma loop_vol_ok: "vol_ok s \<Longrightarrow> vol_ok (fst (loop inp s))"
proof -
  assume "vol_ok s"
  then have "vol_ok (fst (show_once inp s))" by (simp add: vol_ok_def show_once_vol)
  then show ?thesis
    by (cases "rx inp") (simp_all add: loop_def case_prod_beta doMenu_vol_ok)
qed

lemma loop_mono_vol_ok: "vol_ok s \<Longrightarrow> vol_ok (fst (loop_mono inp s))"
proof -
  assume "vol_ok s"
  then have "vol_ok (fst (show_once_mono inp s))" by (simp add: vol_ok_def show_once_mono_vol)
  then show ?thesis
    by (cases "rx inp") (simp_all add: loop_mono_def case_prod_beta doMenu_mono_vol_ok)
qed

lemma loops_vol_ok: "vol_ok s \<Longrightarrow> vol_ok (fst (loops ins s))"
  by (induction ins arbitrary: s) (simp_all add: case_prod_beta loop_vol_ok)

lemma loops_mono_vol_ok: "vol_ok s \<Longrightarrow> vol_ok (fst (loops_mono ins s))"
  by (induction ins arbitrary: s) (simp_all add: case_prod_beta loop_mono_vol_ok)

text \<open>
  Claim C6. The volume level is within 0 .. \<^verbatim>\<open>MAX_VOLUME\<close> initially (in both files), and
  every action keeps it there: \<^verbatim>\<open>incrementVolume\<close>, \<^verbatim>\<open>decrementVolume\<close>, \<^verbatim>\<open>toggleSpeaker\<close>,
  every action called through the menu table, \<^verbatim>\<open>doMenu\<close> on every character, and any
  number of calls of \<^verbatim>\<open>loop\<close>. \<^verbatim>\<open>decrementVolume\<close> never makes a non-negative level
  negative.
\<close>

theorem volume_invariant:
  "vol_ok radio_init \<and> vol_ok radio_init_mono \<and>
   (vol_ok s \<longrightarrow>
      vol_ok (fst (incrementVolume s)) \<and> vol_ok (fst (decrementVolume s)) \<and>
      vol_ok (fst (toggleSpeaker s)) \<and> vol_ok (fst (call a x s)) \<and>
      vol_ok (fst (doMenu k s)) \<and> vol_ok (fst (doMenu_mono k s)) \<and>
      vol_ok (fst (loops ins s)) \<and> vol_ok (fst (loops_mono ins s))) \<and>
   (0 \<le> currentVolume s \<longrightarrow> 0 \<le> currentVolume (fst (decrementVolume s)))"
proof -
  have init: "vol_ok radio_init \<and> vol_ok radio_init_mono"
    by (simp add: vol_ok_def radio_init_def radio_init_mono_def DEFAULT_VOLUME_def MAX_VOLUME_def)
  have ops: "vol_ok s \<Longrightarrow> vol_ok (fst (incrementVolume s)) \<and> vol_ok (fst (decrementVolume s)) \<and>
      vol_ok (fst (toggleSpeaker s))"
    using call_vol_ok [of s IncrementVolume] call_vol_ok [of s DecrementVolume]
      call_vol_ok [of s ToggleSpeaker] by simp
  have dec: "0 \<le> currentVolume s \<longrightarrow> 0 \<le> currentVolume (fst (decrementVolume s))"
    by (simp add: decrementVolume_vol)
  show ?thesis
    using init ops dec
    by (simp add: call_vol_ok doMenu_vol_ok doMenu_mono_vol_ok loops_vol_ok loops_mono_vol_ok)
qed

theorem volume_invariant_witness:
  "vol_ok (radio_init\<lparr>currentVolume := 0\<rparr>) \<and>
   vol_ok (fst (decrementVolume (radio_init\<lparr>currentVolume := 0\<rparr>))) \<and>
   vol_ok (fst (doMenu (CHR ''-'') (radio_init\<lparr>currentVolume := 0\<rparr>))) \<and>
   vol_ok (fst (doMenu_mono (CHR ''-'') (radio_init\<lparr>currentVolume := 0\<rparr>))) \<and>
   0 \<le> currentVolume (fst (decrementVolume (radio_init\<lparr>currentVolume := 0\<rparr>)))"
proof -
  have a: "vol_ok (radio_init\<lparr>currentVolume := 0\<rparr>)"
    by (simp add: vol_ok_def MAX_VOLUME_def)
  have b: "0 \<le> currentVolume (radio_init\<lparr>currentVolume := 0\<rparr>)" by simp
  show ?thesis
    using a b
      volume_invariant [of "radio_init\<lparr>currentVolume := 0\<rparr>" IncrementVolume "[]" "CHR ''-''" "[]"]
    by simp
qed

lemma audio_cmds_append: "audio_cmds (xs @ ys) = audio_cmds xs @ audio_cmds ys"
  by (induction xs rule: audio_cmds.induct) simp_all

lemma printed_append: "printed (xs @ ys) = printed xs @ printed ys"
  by (induction xs rule: printed.induct) simp_all


lemma doMenu_PlayRadio:
  assumes "j < nbrMenuItems" and "action (menu ! j) = PlayRadio"
  shows "doMenu (key (menu ! j)) s =
     (s, [SerialRead (key (menu ! j)), ClearLine, Audio (ConnectToHost (arg (menu ! j)))])"
  using assms by (simp add: doMenu_known playRadio_def)

lemma station_keys_default:
  "list_all (\<lambda>m. key_mono m \<notin> {CHR ''S'', CHR ''C'', CHR ''T'', CHR ''!'', CHR ''.'', CHR '','',
      CHR ''+'', CHR ''-''}) (take 24 station)"
  by (simp add: station_def)

lemma doMenu_mono_station:
  assumes "j < 24"
  shows "doMenu_mono (key_mono (station ! j)) s =
     (s\<lparr>currentStation := int j, currentUrl := url_mono (station ! j)\<rparr>,
      [SerialRead (key_mono (station ! j)), ClearLine,
       Audio (ConnectToHost (url_mono (station ! j)))])"
proof -
  have "key_mono (take 24 station ! j) \<notin> {CHR ''S'', CHR ''C'', CHR ''T'', CHR ''!'', CHR ''.'',
      CHR '','', CHR ''+'', CHR ''-''}"
    using station_keys_default assms by (simp add: list_all_length length_station)
  then have k: "key_mono (station ! j) \<notin> {CHR ''S'', CHR ''C'', CHR ''T'', CHR ''!'', CHR ''.'',
      CHR '','', CHR ''+'', CHR ''-''}"
    using assms by simp
  have "j < nbrRadiostations" using assms by (simp add: nbrRadiostations_def length_station)
  then show ?thesis using k
    by (simp add: doMenu_mono_known doMenu_switch_def Let_def)
qed

text \<open>
  Claim C1 says that choosing a station entry sets \<^verbatim>\<open>currentStation\<close> to the position of
  the entry and calls \<^verbatim>\<open>audio.connecttohost\<close> once with the entry's URL.
  \<^verbatim>\<open>esp32InternetRadio.cpp\<close> does this (\<open>doMenu_mono_station\<close>). In \<^verbatim>\<open>main.cpp\<close> the
  action \<^verbatim>\<open>playRadio\<close> only calls \<^verbatim>\<open>audio.connecttohost\<close> (\<open>doMenu_PlayRadio\<close>): on key
  \<^verbatim>\<open>'0'\<close> (position 0) from the initial values, \<^verbatim>\<open>currentStation\<close> stays 5 and
  \<^verbatim>\<open>currentUrl\<close> stays the URL of entry 5, so that \<^verbatim>\<open>showCurrentStation\<close> afterwards still
  reports "Swiss Classic" while the engine was sent to the URL of entry 0.
\<close>

theorem playRadio_leaves_currentStation:
  "key (menu ! 0) = CHR ''0'' \<and> action (menu ! 0) = PlayRadio \<and>
   doMenu (CHR ''0'') radio_init =
     (radio_init, [SerialRead (CHR ''0''), ClearLine, Audio (ConnectToHost (arg (menu ! 0)))]) \<and>
   currentStation (fst (doMenu (CHR ''0'') radio_init)) = 5 \<and>
   currentUrl (fst (doMenu (CHR ''0'') radio_init)) = arg (menu ! 5) \<and>
   printed (snd (doMenu (CHR ''C'') (fst (doMenu (CHR ''0'') radio_init)))) =
     [''Current Station: Swiss Classic --> http://stream.srg-ssr.ch/m/rsc_de/mp3_128''] \<and>
   currentStation (fst (doMenu_mono (CHR ''0'') radio_init_mono)) = 0 \<and>
   currentUrl (fst (doMenu_mono (CHR ''0'') radio_init_mono)) = url_mono (station ! 0)"
proof -
  have k: "key (menu ! 0) = CHR ''0''" and a: "action (menu ! 0) = PlayRadio"
    by (simp_all add: menu_def)
  have m: "doMenu (CHR ''0'') radio_init =
     (radio_init, [SerialRead (CHR ''0''), ClearLine, Audio (ConnectToHost (arg (menu ! 0)))])"
    using doMenu_PlayRadio [of 0 radio_init] a k by (simp add: nbrMenuItems_def length_menu)
  have km: "key_mono (station ! 0) = CHR ''0''" by (simp add: station_def)
  have mm: "doMenu_mono (CHR ''0'') radio_init_mono =
     (radio_init_mono\<lparr>currentStation := 0, currentUrl := url_mono (station ! 0)\<rparr>,
      [SerialRead (CHR ''0''), ClearLine, Audio (ConnectToHost (url_mono (station ! 0)))])"
    using doMenu_mono_station [of 0 radio_init_mono] km by simp
  have c: "printed (snd (doMenu (CHR ''C'') radio_init)) =
     [''Current Station: Swiss Classic --> http://stream.srg-ssr.ch/m/rsc_de/mp3_128'']"
    using doMenu_known [of 31 radio_init]
    by (simp add: nbrMenuItems_def menu_def showCurrentStation_def menu_txt_def radio_init_def)
  show ?thesis using k a m mm c by (simp add: radio_init_def)
qed







































subsection \<open>Start-up and connectivity\<close>

lemma keys_read_append: "keys_read (xs @ ys) = keys_read xs @ keys_read ys"
  by (induction xs rule: keys_read.induct) simp_all

lemma heartbeats_append: "heartbeats (xs @ ys) = heartbeats xs + heartbeats ys"
  by (induction xs rule: heartbeats.induct) simp_all

lemma heartbeats_replicate: "heartbeats (replicate n (Sys (Heartbeat a b c))) = n"
  by (induction n) simp_all

lemma audio_cmds_heartbeat: "audio_cmds (replicate n (Sys (Heartbeat a b c))) = []"
  by (induction n) simp_all

lemma keys_read_heartbeat: "keys_read (replicate n (Sys (Heartbeat a b c))) = []"
  by (induction n) simp_all

lemma after_connect_heartbeat: "after_connect c (replicate n (Sys (Heartbeat a b d)))"
  by (induction n) simp_all

lemma after_connect_True: "after_connect True es"
proof (induction es)
  case Nil
  show ?case by simp
next
  case (Cons e es)
  show ?case
  proof (cases e)
    case (Sys c)
    then show ?thesis using Cons by (cases c) simp_all
  qed (use Cons in simp_all)
qed

lemma initWiFi_while_returns: "fst (initWiFi_while polls) \<longleftrightarrow> True \<in> set polls"
  by (induction polls) (auto simp: case_prod_beta)

lemma initWiFi_while_quiet:
  "audio_cmds (snd (initWiFi_while polls)) = [] \<and> keys_read (snd (initWiFi_while polls)) = []"
  by (induction polls) (simp_all add: case_prod_beta println_def)

lemma initWiFi_while_after_connect:
  "after_connect c (snd (initWiFi_while polls) @ rest) =
     (if fst (initWiFi_while polls) then after_connect True rest else after_connect c rest)"
  by (induction polls) (simp_all add: case_prod_beta println_def)

lemma setup_main_ok:
  "setup_main True fuel s =
     (Some s, [Sys (SerialBegin 115200), Sys PinModeLedOutput, Sys (InitWiFi ssid password hostname True),
               Sys SpiffsBegin, Sys PrintNearbyNetworks, Sys PrintConnectionDetails,
               Audio (SetPinout I2S_BCLK I2S_LRC I2S_DOUT), Audio (SetVolume (currentVolume s)),
               Audio (ConnectToHost (currentUrl s))])"
  by (simp add: setup_main_def initAudio_def)

lemma setup_main_failed:
  "setup_main False fuel s =
     (None, [Sys (SerialBegin 115200), Sys PinModeLedOutput, Sys (InitWiFi ssid password hostname False),
             Sys (LogError ''==> Connection to WLAN failed'')] @ replicate fuel (Sys (Heartbeat 3 1 5)))"
  by (simp add: setup_main_def)

lemma setup_mono_ok:
  assumes "True \<in> set polls"
  shows "setup_mono polls s =
     (Some s, [Sys (SerialBegin 115200), println ''Connecting to WiFi'', Sys WiFiConfig,
               Sys (WiFiSetHostname hostname_mono), Sys (WiFiBegin ssid_mono password_mono)]
              @ snd (initWiFi_while polls)
              @ [println ''Connected'', Sys PrintConnectionDetails,
                 Audio (SetPinout I2S_BCLK I2S_LRC I2S_DOUT), Audio (SetVolume (currentVolume s)),
                 Audio (ConnectToHost (currentUrl s))])"
  using assms initWiFi_while_returns [of polls]
  by (simp add: setup_mono_def initWiFi_mono_def initAudio_def case_prod_beta Let_def)

lemma setup_mono_waiting:
  assumes "True \<notin> set polls"
  shows "setup_mono polls s =
     (None, [Sys (SerialBegin 115200), println ''Connecting to WiFi'', Sys WiFiConfig,
             Sys (WiFiSetHostname hostname_mono), Sys (WiFiBegin ssid_mono password_mono)]
            @ snd (initWiFi_while polls))"
  using assms initWiFi_while_returns [of polls]
  by (simp add: setup_mono_def initWiFi_mono_def case_prod_beta Let_def)

text \<open>
  Claim C8. When the WiFi connection is established, \<^verbatim>\<open>setup\<close> returns with the variables
  at their initial values and has commanded the engine exactly three times: pin-out,
  volume 10 (\<^verbatim>\<open>DEFAULT_VOLUME\<close>), and \<^verbatim>\<open>connecttohost\<close> with the URL of entry 5 ("Swiss
  Classic"). No input character is read during \<^verbatim>\<open>setup\<close>, and the events of the calls of
  \<^verbatim>\<open>loop\<close> all come after those of \<^verbatim>\<open>setup\<close>. In \<^verbatim>\<open>main.cpp\<close> the connection is established
  when \<^verbatim>\<open>initWiFi\<close> returns true; in \<^verbatim>\<open>esp32InternetRadio.cpp\<close> when some call of
  \<^verbatim>\<open>WiFi.status()\<close> answers \<^verbatim>\<open>WL_CONNECTED\<close>.
\<close>

theorem startup_plays_default:
  "item_txt (menu ! 5) = ''Swiss Classic'' \<and> name_mono (station ! 5) = ''Swiss Classic'' \<and>
   fst (setup_main True fuel radio_init) = Some radio_init \<and>
   audio_cmds (snd (setup_main True fuel radio_init)) =
     [SetPinout I2S_BCLK I2S_LRC I2S_DOUT, SetVolume 10,
      ConnectToHost ''http://stream.srg-ssr.ch/m/rsc_de/mp3_128''] \<and>
   keys_read (snd (setup_main True fuel radio_init)) = [] \<and>
   snd (sketch True fuel ins) =
     snd (setup_main True fuel radio_init) @ snd (loops ins radio_init) \<and>
   (True \<in> set polls \<longrightarrow>
      fst (setup_mono polls radio_init_mono) = Some radio_init_mono \<and>
      audio_cmds (snd (setup_mono polls radio_init_mono)) =
        [SetPinout I2S_BCLK I2S_LRC I2S_DOUT, SetVolume 10,
         ConnectToHost ''http://stream.srg-ssr.ch/m/rsc_de/mp3_128''] \<and>
      keys_read (snd (setup_mono polls radio_init_mono)) = [] \<and>
      snd (sketch_mono polls ins) =
        snd (setup_mono polls radio_init_mono) @ snd (loops_mono ins radio_init_mono))"
proof -
  have labels: "item_txt (menu ! 5) = ''Swiss Classic'' \<and> name_mono (station ! 5) = ''Swiss Classic''"
    by (simp add: menu_def station_def)
  have vals: "currentVolume radio_init = 10 \<and>
      currentUrl radio_init = ''http://stream.srg-ssr.ch/m/rsc_de/mp3_128'' \<and>
      currentVolume radio_init_mono = 10 \<and>
      currentUrl radio_init_mono = ''http://stream.srg-ssr.ch/m/rsc_de/mp3_128''"
    by (simp add: radio_init_def radio_init_mono_def DEFAULT_VOLUME_def menu_def station_def)
  have main: "fst (setup_main True fuel radio_init) = Some radio_init \<and>
      audio_cmds (snd (setup_main True fuel radio_init)) =
        [SetPinout I2S_BCLK I2S_LRC I2S_DOUT, SetVolume 10,
         ConnectToHost ''http://stream.srg-ssr.ch/m/rsc_de/mp3_128''] \<and>
      keys_read (snd (setup_main True fuel radio_init)) = []"
    using vals by (simp add: setup_main_ok)
  have run: "snd (sketch True fuel ins) =
      snd (setup_main True fuel radio_init) @ snd (loops ins radio_init)"
    by (simp add: sketch_def setup_main_ok case_prod_beta)
  have mono: "True \<in> set polls \<Longrightarrow>
      fst (setup_mono polls radio_init_mono) = Some radio_init_mono \<and>
      audio_cmds (snd (setup_mono polls radio_init_mono)) =
        [SetPinout I2S_BCLK I2S_LRC I2S_DOUT, SetVolume 10,
         ConnectToHost ''http://stream.srg-ssr.ch/m/rsc_de/mp3_128''] \<and>
      keys_read (snd (setup_mono polls radio_init_mono)) = [] \<and>
      snd (sketch_mono polls ins) =
        snd (setup_mono polls radio_init_mono) @ snd (loops_mono ins radio_init_mono)"
    using vals initWiFi_while_quiet [of polls]
    by (simp add: setup_mono_ok sketch_mono_def case_prod_beta audio_cmds_append
          keys_read_append println_def)
  show ?thesis using labels main run mono by blast
qed

theorem startup_plays_default_witness:
  "True \<in> set [False, True] \<and>
   fst (setup_mono [False, True] radio_init_mono) = Some radio_init_mono \<and>
   audio_cmds (snd (setup_mono [False, True] radio_init_mono)) =
     [SetPinout I2S_BCLK I2S_LRC I2S_DOUT, SetVolume 10,
      ConnectToHost ''http://stream.srg-ssr.ch/m/rsc_de/mp3_128''] \<and>
   keys_read (snd (sketch_mono [False, True] [])) = [] \<and>
   audio_cmds (snd (sketch True 0 [])) =
     [SetPinout I2S_BCLK I2S_LRC I2S_DOUT, SetVolume 10,
      ConnectToHost ''http://stream.srg-ssr.ch/m/rsc_de/mp3_128'']"
proof -
  have a: "True \<in> set [False, True]" by simp
  show ?thesis using a startup_plays_default [of 0 "[]" "[False, True]"] by simp
qed

lemma sketch_failed:
  "sketch False fuel ins = setup_main False fuel radio_init"
  by (simp add: sketch_def setup_main_failed)

lemma sketch_mono_waiting:
  "True \<notin> set polls \<Longrightarrow> sketch_mono polls ins = setup_mono polls radio_init_mono"
  by (simp add: sketch_mono_def setup_mono_waiting)

lemma sketch_after_connect: "after_connect False (snd (sketch wifi_ok fuel ins))"
proof (cases wifi_ok)
  case True
  then show ?thesis
    by (simp add: sketch_def setup_main_ok case_prod_beta after_connect_True)
next
  case False
  then show ?thesis
    by (simp add: sketch_failed setup_main_failed after_connect_heartbeat)
qed

lemma sketch_mono_after_connect: "after_connect False (snd (sketch_mono polls ins))"
proof (cases "True \<in> set polls")
  case True
  then show ?thesis
    using initWiFi_while_returns [of polls]
    by (simp add: sketch_mono_def setup_mono_ok case_prod_beta println_def
          initWiFi_while_after_connect after_connect_True)
next
  case False
  then show ?thesis
    using initWiFi_while_returns [of polls]
      initWiFi_while_after_connect [of False polls "[]"]
    by (simp add: sketch_mono_waiting setup_mono_waiting println_def)
qed

text \<open>
  Claim C7. In every execution of either sketch, every engine command and every read of
  an input character comes after the WiFi connection was reported as established, and
  \<^verbatim>\<open>setup\<close> returns (so that \<^verbatim>\<open>loop\<close> can run) only if it was. In \<^verbatim>\<open>main.cpp\<close>, when
  \<^verbatim>\<open>initWiFi\<close> returns false, \<^verbatim>\<open>setup\<close> never returns, however long the execution is
  observed: it calls \<^verbatim>\<open>heartbeat\<close> once per observed iteration, commands the engine
  never and reads no input. In \<^verbatim>\<open>esp32InternetRadio.cpp\<close>, as long as \<^verbatim>\<open>WiFi.status()\<close> has
  not answered \<^verbatim>\<open>WL_CONNECTED\<close>, \<^verbatim>\<open>setup\<close> has not returned, the engine was not commanded
  and no input was read.
\<close>

theorem commands_after_connect:
  "after_connect False (snd (sketch wifi_ok fuel ins)) \<and>
   after_connect False (snd (sketch_mono polls ins)) \<and>
   (fst (sketch wifi_ok fuel ins) \<noteq> None \<longrightarrow> wifi_ok) \<and>
   (fst (sketch_mono polls ins) \<noteq> None \<longrightarrow> True \<in> set polls) \<and>
   (\<not> wifi_ok \<longrightarrow>
      fst (sketch wifi_ok fuel ins) = None \<and>
      audio_cmds (snd (sketch wifi_ok fuel ins)) = [] \<and>
      keys_read (snd (sketch wifi_ok fuel ins)) = [] \<and>
      heartbeats (snd (sketch wifi_ok fuel ins)) = fuel) \<and>
   (True \<notin> set polls \<longrightarrow>
      fst (sketch_mono polls ins) = None \<and>
      audio_cmds (snd (sketch_mono polls ins)) = [] \<and>
      keys_read (snd (sketch_mono polls ins)) = [])"
proof -
  have failed: "\<not> wifi_ok \<Longrightarrow>
      fst (sketch wifi_ok fuel ins) = None \<and>
      audio_cmds (snd (sketch wifi_ok fuel ins)) = [] \<and>
      keys_read (snd (sketch wifi_ok fuel ins)) = [] \<and>
      heartbeats (snd (sketch wifi_ok fuel ins)) = fuel"
    by (simp add: sketch_failed setup_main_failed audio_cmds_heartbeat keys_read_heartbeat
          heartbeats_replicate)
  have waiting: "True \<notin> set polls \<Longrightarrow>
      fst (sketch_mono polls ins) = None \<and>
      audio_cmds (snd (sketch_mono polls ins)) = [] \<and>
      keys_read (snd (sketch_mono polls ins)) = []"
    using initWiFi_while_quiet [of polls]
    by (simp add: sketch_mono_waiting setup_mono_waiting println_def)
  have ret: "fst (sketch wifi_ok fuel ins) \<noteq> None \<longrightarrow> wifi_ok"
    using failed by (cases wifi_ok) simp_all
  have ret_mono: "fst (sketch_mono polls ins) \<noteq> None \<longrightarrow> True \<in> set polls"
    using waiting by (cases "True \<in> set polls") simp_all
  from failed have failed': "\<not> wifi_ok \<longrightarrow>
      fst (sketch wifi_ok fuel ins) = None \<and>
      audio_cmds (snd (sketch wifi_ok fuel ins)) = [] \<and>
      keys_read (snd (sketch wifi_ok fuel ins)) = [] \<and>
      heartbeats (snd (sketch wifi_ok fuel ins)) = fuel" ..
  from waiting have waiting': "True \<notin> set polls \<longrightarrow>
      fst (sketch_mono polls ins) = None \<and>
      audio_cmds (snd (sketch_mono polls ins)) = [] \<and>
      keys_read (snd (sketch_mono polls ins)) = []" ..
  show ?thesis
    by (intro conjI sketch_after_connect sketch_mono_after_connect ret ret_mono failed' waiting')
qed

theorem commands_after_connect_witness:
  "fst (sketch False 3 [\<lparr>ms_init = 0, ms_test = 6000, ms_store = 6000, rx = Some (CHR ''5'')\<rparr>]) = None \<and>
   audio_cmds (snd (sketch False 3
      [\<lparr>ms_init = 0, ms_test = 6000, ms_store = 6000, rx = Some (CHR ''5'')\<rparr>])) = [] \<and>
   keys_read (snd (sketch False 3
      [\<lparr>ms_init = 0, ms_test = 6000, ms_store = 6000, rx = Some (CHR ''5'')\<rparr>])) = [] \<and>
   heartbeats (snd (sketch False 3
      [\<lparr>ms_init = 0, ms_test = 6000, ms_store = 6000, rx = Some (CHR ''5'')\<rparr>])) = 3 \<and>
   fst (sketch_mono [False, False]
      [\<lparr>ms_init = 0, ms_test = 6000, ms_store = 6000, rx = Some (CHR ''5'')\<rparr>]) = None \<and>
   after_connect False (snd (sketch True 0
      [\<lparr>ms_init = 0, ms_test = 6000, ms_store = 6000, rx = Some (CHR ''5'')\<rparr>]))"
  using commands_after_connect [of False 3
      "[\<lparr>ms_init = 0, ms_test = 6000, ms_store = 6000, rx = Some (CHR ''5'')\<rparr>]" "[False, False]"]
    commands_after_connect [of True 0
      "[\<lparr>ms_init = 0, ms_test = 6000, ms_store = 6000, rx = Some (CHR ''5'')\<rparr>]" "[]"]
  by simp

subsection \<open>The menu is shown automatically once\<close>

lemma call_done: "done_flag (fst (call a x s)) = done_flag s"
  by (cases a)
     (simp_all add: playRadio_def playMP3_def textToSpeachEn_def textToSpeachDe_def
        textToSpeachIt_def showMenu_def showCurrentStation_def incrementVolume_def
        decrementVolume_def toggleSpeaker_def Let_def)

lemma doMenu_done: "done_flag (fst (doMenu k s)) = done_flag s"
  by (rule doMenu_cases [where k = k and s = s]) (simp_all add: call_done)

lemma doMenu_switch_done: "done_flag (fst (doMenu_switch j k s)) = done_flag s"
  by (simp add: doMenu_switch_def showMenu_mono_def showCurrentStation_mono_def
        incrementVolume_def decrementVolume_def toggleSpeaker_def Let_def)

lemma doMenu_mono_done: "done_flag (fst (doMenu_mono k s)) = done_flag s"
  by (rule doMenu_mono_cases [where k = k and s = s]) (simp_all add: doMenu_switch_done)

lemma show_once_latched:
  "done_flag s \<Longrightarrow> snd (show_once i s) = [] \<and> done_flag (fst (show_once i s))"
  "done_flag s \<Longrightarrow> snd (show_once_mono i s) = [] \<and> done_flag (fst (show_once_mono i s))"
  by (simp_all add: show_once_def show_once_mono_def Let_def)

lemma show_once_fires:
  "snd (show_once i s) \<noteq> [] \<Longrightarrow>
     \<not> done_flag s \<and> done_flag (fst (show_once i s)) \<and> snd (show_once i s) = snd (showMenu s)"
  by (auto simp add: show_once_def showMenu_def Let_def split: if_splits prod.splits)

lemma show_once_mono_fires:
  "snd (show_once_mono i s) \<noteq> [] \<Longrightarrow>
     \<not> done_flag s \<and> done_flag (fst (show_once_mono i s)) \<and>
     snd (show_once_mono i s) = snd (showMenu_mono s)"
  by (auto simp add: show_once_mono_def showMenu_mono_def Let_def split: if_splits prod.splits)

lemma loop_done: "done_flag (fst (loop i s)) = done_flag (fst (show_once i s))"
  by (cases "rx i") (simp_all add: loop_def case_prod_beta doMenu_done)

lemma loop_mono_done: "done_flag (fst (loop_mono i s)) = done_flag (fst (show_once_mono i s))"
  by (cases "rx i") (simp_all add: loop_mono_def case_prod_beta doMenu_mono_done)

lemma auto_menus_latched: "done_flag s \<Longrightarrow> auto_menus ins s = 0"
  by (induction ins arbitrary: s) (simp_all add: show_once_latched loop_done)

lemma auto_menus_mono_latched: "done_flag s \<Longrightarrow> auto_menus_mono ins s = 0"
  by (induction ins arbitrary: s) (simp_all add: show_once_latched loop_mono_done)

lemma auto_menus_le1: "auto_menus ins s \<le> Suc 0"
proof (induction ins arbitrary: s)
  case Nil
  show ?case by simp
next
  case (Cons i ins)
  show ?case
  proof (cases "snd (show_once i s) = []")
    case True
    then show ?thesis using Cons [of "fst (loop i s)"] by simp
  next
    case False
    then have "done_flag (fst (loop i s))" using show_once_fires [of i s] by (simp add: loop_done)
    then have "auto_menus ins (fst (loop i s)) = 0" by (rule auto_menus_latched)
    then show ?thesis by simp
  qed
qed

lemma auto_menus_mono_le1: "auto_menus_mono ins s \<le> Suc 0"
proof (induction ins arbitrary: s)
  case Nil
  show ?case by simp
next
  case (Cons i ins)
  show ?case
  proof (cases "snd (show_once_mono i s) = []")
    case True
    then show ?thesis using Cons [of "fst (loop_mono i s)"] by simp
  next
    case False
    then have "done_flag (fst (loop_mono i s))"
      using show_once_mono_fires [of i s] by (simp add: loop_mono_done)
    then have "auto_menus_mono ins (fst (loop_mono i s)) = 0" by (rule auto_menus_mono_latched)
    then show ?thesis by simp
  qed
qed

lemma title_call: "SerialOut TITLE \<in> set (snd (call a x s)) \<Longrightarrow> a = ShowMenu"
  by (cases a)
     (simp_all add: playRadio_def playMP3_def textToSpeachEn_def textToSpeachDe_def
        textToSpeachIt_def showCurrentStation_def incrementVolume_def
        decrementVolume_def toggleSpeaker_def Let_def TITLE_def split: if_splits)

lemma ShowMenu_key: "list_all (\<lambda>m. action m = ShowMenu \<longrightarrow> key m = CHR ''S'') menu"
  by (simp add: menu_def)

lemma title_doMenu:
  assumes "SerialOut TITLE \<in> set (snd (doMenu k s))"
  shows "k = CHR ''S''"
proof (rule doMenu_cases [where k = k and s = s])
  assume "doMenu k s = (s, [SerialRead k, ClearLine])"
  with assms show ?thesis by simp
next
  fix j
  assume j: "j < nbrMenuItems" "k = key (menu ! j)"
    and d: "doMenu k s = (fst (call (action (menu ! j)) (arg (menu ! j)) s),
         [SerialRead k, ClearLine] @ snd (call (action (menu ! j)) (arg (menu ! j)) s))"
  from assms d have "SerialOut TITLE \<in> set (snd (call (action (menu ! j)) (arg (menu ! j)) s))"
    by simp
  then have "action (menu ! j) = ShowMenu" by (rule title_call)
  with j ShowMenu_key show ?thesis by (simp add: list_all_length nbrMenuItems_def)
qed

lemma title_doMenu_switch:
  "SerialOut TITLE \<in> set (snd (doMenu_switch j k s)) \<Longrightarrow> k = CHR ''S''"
  by (simp add: doMenu_switch_def showCurrentStation_mono_def incrementVolume_def
        decrementVolume_def toggleSpeaker_def Let_def TITLE_def split: if_splits)

lemma title_doMenu_mono:
  assumes "SerialOut TITLE \<in> set (snd (doMenu_mono k s))"
  shows "k = CHR ''S''"
proof (rule doMenu_mono_cases [where k = k and s = s])
  assume "doMenu_mono k s = (s, [SerialRead k, ClearLine])"
  with assms show ?thesis by simp
next
  fix j
  assume d: "doMenu_mono k s = (fst (doMenu_switch j k s),
         [SerialRead k, ClearLine] @ snd (doMenu_switch j k s))"
  with assms have "SerialOut TITLE \<in> set (snd (doMenu_switch j k s))" by simp
  then show ?thesis by (rule title_doMenu_switch)
qed

lemma title_loop:
  assumes "done_flag s" and "SerialOut TITLE \<in> set (snd (loop i s))"
  shows "rx i = Some (CHR ''S'')"
proof (cases "rx i")
  case None
  with assms show ?thesis by (simp add: loop_def case_prod_beta show_once_latched)
next
  case (Some k)
  with assms have "SerialOut TITLE \<in> set (snd (doMenu k (fst (show_once i s))))"
    by (simp add: loop_def case_prod_beta show_once_latched)
  then have "k = CHR ''S''" by (rule title_doMenu)
  with Some show ?thesis by simp
qed

lemma title_loop_mono:
  assumes "done_flag s" and "SerialOut TITLE \<in> set (snd (loop_mono i s))"
  shows "rx i = Some (CHR ''S'')"
proof (cases "rx i")
  case None
  with assms show ?thesis by (simp add: loop_mono_def case_prod_beta show_once_latched)
next
  case (Some k)
  with assms have "SerialOut TITLE \<in> set (snd (doMenu_mono k (fst (show_once_mono i s))))"
    by (simp add: loop_mono_def case_prod_beta show_once_latched)
  then have "k = CHR ''S''" by (rule title_doMenu_mono)
  with Some show ?thesis by simp
qed

text \<open>
  Claim C10. In any run of \<^verbatim>\<open>loop\<close> calls, from any values of the variables, the statement
  guarded by \<^verbatim>\<open>done\<close> prints the menu in at most one call. When it prints, \<^verbatim>\<open>done\<close> was
  clear and is set afterwards; once \<^verbatim>\<open>done\<close> is set it stays set and the statement prints
  nothing any more. With \<^verbatim>\<open>done\<close> set, a call of \<^verbatim>\<open>loop\<close> prints the menu title only if
  the character it read is \<^verbatim>\<open>'S'\<close> (the key of "Show Menu").
\<close>

theorem menu_shown_once:
  "auto_menus ins s \<le> 1 \<and> auto_menus_mono ins s \<le> 1 \<and>
   (snd (show_once i s) \<noteq> [] \<longrightarrow>
      \<not> done_flag s \<and> done_flag (fst (loop i s)) \<and> snd (show_once i s) = snd (showMenu s)) \<and>
   (snd (show_once_mono i s) \<noteq> [] \<longrightarrow>
      \<not> done_flag s \<and> done_flag (fst (loop_mono i s)) \<and>
      snd (show_once_mono i s) = snd (showMenu_mono s)) \<and>
   (done_flag s \<longrightarrow>
      done_flag (fst (loop i s)) \<and> done_flag (fst (loop_mono i s)) \<and>
      auto_menus ins s = 0 \<and> auto_menus_mono ins s = 0) \<and>
   (done_flag s \<and> SerialOut TITLE \<in> set (snd (loop i s)) \<longrightarrow> rx i = Some (CHR ''S'')) \<and>
   (done_flag s \<and> SerialOut TITLE \<in> set (snd (loop_mono i s)) \<longrightarrow> rx i = Some (CHR ''S''))"
proof -
  have le: "auto_menus ins s \<le> 1" "auto_menus_mono ins s \<le> 1"
    using auto_menus_le1 [of ins s] auto_menus_mono_le1 [of ins s] by simp_all
  have fires: "snd (show_once i s) \<noteq> [] \<longrightarrow>
      \<not> done_flag s \<and> done_flag (fst (loop i s)) \<and> snd (show_once i s) = snd (showMenu s)"
    using show_once_fires [of i s] by (simp add: loop_done)
  have fires_mono: "snd (show_once_mono i s) \<noteq> [] \<longrightarrow>
      \<not> done_flag s \<and> done_flag (fst (loop_mono i s)) \<and>
      snd (show_once_mono i s) = snd (showMenu_mono s)"
    using show_once_mono_fires [of i s] by (simp add: loop_mono_done)
  have latched: "done_flag s \<longrightarrow>
      done_flag (fst (loop i s)) \<and> done_flag (fst (loop_mono i s)) \<and>
      auto_menus ins s = 0 \<and> auto_menus_mono ins s = 0"
    by (simp add: loop_done loop_mono_done show_once_latched auto_menus_latched
          auto_menus_mono_latched)
  have t: "done_flag s \<and> SerialOut TITLE \<in> set (snd (loop i s)) \<longrightarrow> rx i = Some (CHR ''S'')"
    using title_loop [of s i] by blast
  have t_mono: "done_flag s \<and> SerialOut TITLE \<in> set (snd (loop_mono i s)) \<longrightarrow>
      rx i = Some (CHR ''S'')"
    using title_loop_mono [of s i] by blast
  show ?thesis by (intro conjI le fires fires_mono latched t t_mono)
qed

theorem menu_shown_once_witness:
  "snd (show_once \<lparr>ms_init = 0, ms_test = 5000, ms_store = 5001, rx = None\<rparr> radio_init) \<noteq> [] \<and>
   done_flag (fst (loop \<lparr>ms_init = 0, ms_test = 5000, ms_store = 5001, rx = None\<rparr> radio_init)) \<and>
   done_flag (radio_init\<lparr>done_flag := True\<rparr>) \<and>
   done_flag (fst (loop \<lparr>ms_init = 0, ms_test = 5000, ms_store = 5001, rx = None\<rparr>
      (radio_init\<lparr>done_flag := True\<rparr>))) \<and>
   auto_menus [\<lparr>ms_init = 0, ms_test = 5000, ms_store = 5001, rx = None\<rparr>]
      (radio_init\<lparr>done_flag := True\<rparr>) = 0 \<and>
   auto_menus [\<lparr>ms_init = 0, ms_test = 5000, ms_store = 5001, rx = None\<rparr>,
               \<lparr>ms_init = 0, ms_test = 20000, ms_store = 20000, rx = None\<rparr>] radio_init \<le> 1"
proof -
  have f: "snd (show_once \<lparr>ms_init = 0, ms_test = 5000, ms_store = 5001, rx = None\<rparr> radio_init)
      \<noteq> []"
    by (simp add: show_once_def waitIsOver_def showMenu_def radio_init_def)
  show ?thesis
    using f
      menu_shown_once [of "[\<lparr>ms_init = 0, ms_test = 5000, ms_store = 5001, rx = None\<rparr>,
               \<lparr>ms_init = 0, ms_test = 20000, ms_store = 20000, rx = None\<rparr>]" radio_init
          "\<lparr>ms_init = 0, ms_test = 5000, ms_store = 5001, rx = None\<rparr>"]
      menu_shown_once [of "[\<lparr>ms_init = 0, ms_test = 5000, ms_store = 5001, rx = None\<rparr>]"
          "radio_init\<lparr>done_flag := True\<rparr>"
          "\<lparr>ms_init = 0, ms_test = 5000, ms_store = 5001, rx = None\<rparr>"]
    by simp
qed

end
